theory Spec2Isabelle
  imports Complex_Main "HOL-Library.AList"
begin

section \<open>JavaScript values\<close>

text \<open>
  The server (src/server.js, the ES-module version at the head of the file) works on
  parsed JSON bodies and on lean MongoDB documents, so its data are dynamically typed
  JavaScript values. A number is an IEEE double in the source; here it is either
  \<open>NaN\<close> or a real number. The result of an operation on doubles is the exact result
  rounded to a double, and that rounding is a parameter of the model (\<open>round_double\<close>
  below); the infinities and the sign of zero are not represented. An object is the list of
  its own properties, read with \<open>map_of\<close> (the first binding of a key is the
  property); the order of keys is never observed. Strings are lists of 8-bit characters,
  so only ASCII text is represented.
\<close>

datatype jsnum = NaN | Fin real

datatype jsval =
    JUndefined
  | JNull
  | JBool bool
  | JNum jsnum
  | JStr string
  | JDate int
  | JArr "jsval list"
  | JObj "(string \<times> jsval) list"

datatype error = TypeError

text \<open>The conversions of the language that the program does not define itself but calls:
  \<open>Number(s)\<close> on a string that is not a plain decimal integer, \<open>String(n)\<close> on a
  number and on a date. They are parameters of the model. So is the arithmetic of doubles:
  \<open>round_double\<close> yields the double that a real number is rounded to (to the nearest,
  ties to even), and \<open>store_sum\<close> is the sum that the accumulator \<open>$sum\<close> of the store
  computes from the numbers of a group, which it adds with extended precision.\<close>

record builtins =
  StringToNumber_other :: "string \<Rightarrow> jsnum"
  NumberToString :: "jsnum \<Rightarrow> string"
  DateToString :: "int \<Rightarrow> string"
  round_double :: "real \<Rightarrow> real"
  store_sum :: "real list \<Rightarrow> real"

fun truthy :: "jsval \<Rightarrow> bool" where
  "truthy JUndefined = False"
| "truthy JNull = False"
| "truthy (JBool b) = b"
| "truthy (JNum NaN) = False"
| "truthy (JNum (Fin x)) = (x \<noteq> 0)"
| "truthy (JStr s) = (s \<noteq> [])"
| "truthy (JDate t) = True"
| "truthy (JArr xs) = True"
| "truthy (JObj kvs) = True"

fun nullish :: "jsval \<Rightarrow> bool" where
  "nullish JUndefined = True"
| "nullish JNull = True"
| "nullish v = False"

text \<open>\<open>a || b\<close> and \<open>a ?? b\<close> on values already computed (both operands of every use in
  the source are free of effects).\<close>

definition js_or :: "jsval \<Rightarrow> jsval \<Rightarrow> jsval" where
  "js_or a b = (if truthy a then a else b)"

definition js_coalesce :: "jsval \<Rightarrow> jsval \<Rightarrow> jsval" where
  "js_coalesce a b = (if nullish a then b else a)"

fun is_number :: "jsval \<Rightarrow> bool" where
  "is_number (JNum n) = True"
| "is_number v = False"

text \<open>Reading a property, \<open>v.k\<close>, \<open>v[k]\<close> or \<open>v?.k\<close>. Only own properties of objects are
  found: none of the names that the handlers and the normalizer read is a property of a
  prototype, of a string or of an array. On \<open>undefined\<close> and \<open>null\<close> the result is that
  of \<open>v?.k\<close>; the source reads without \<open>?.\<close> only from values known to be objects.\<close>

fun get_prop :: "jsval \<Rightarrow> string \<Rightarrow> jsval" where
  "get_prop (JObj kvs) k = (case map_of kvs k of Some v \<Rightarrow> v | None \<Rightarrow> JUndefined)"
| "get_prop v k = JUndefined"

subsection \<open>Strings\<close>

definition lower_char :: "char \<Rightarrow> char" where
  "lower_char c =
     (case map_of (zip ''ABCDEFGHIJKLMNOPQRSTUVWXYZ'' ''abcdefghijklmnopqrstuvwxyz'') c of
        Some d \<Rightarrow> d
      | None \<Rightarrow> c)"

definition toLowerCase :: "string \<Rightarrow> string" where
  "toLowerCase s = map lower_char s"

text \<open>\<open>x.toLowerCase()\<close> on a value: only a string has the method; on anything else that
  is not nullish the call raises a TypeError.\<close>

fun call_toLowerCase :: "jsval \<Rightarrow> error + jsval" where
  "call_toLowerCase (JStr s) = Inr (JStr (toLowerCase s))"
| "call_toLowerCase v = Inl TypeError"

definition is_digit :: "char \<Rightarrow> bool" where
  "is_digit c = (let n = (of_char c :: nat) in 48 \<le> n \<and> n \<le> 57)"

definition digit_val :: "char \<Rightarrow> nat" where
  "digit_val c = of_char c - 48"

definition digits_val :: "string \<Rightarrow> nat" where
  "digits_val ds = foldl (\<lambda>a c. 10 * a + digit_val c) 0 ds"

definition is_ws :: "char \<Rightarrow> bool" where
  "is_ws c = (let n = (of_char c :: nat) in n = 32 \<or> (9 \<le> n \<and> n \<le> 13))"

definition trim :: "string \<Rightarrow> string" where
  "trim s = rev (dropWhile is_ws (rev (dropWhile is_ws s)))"

definition digit_char :: "nat \<Rightarrow> char" where
  "digit_char d = ''0123456789'' ! d"

fun show_nat :: "nat \<Rightarrow> string" where
  "show_nat n = (if n < 10 then [digit_char n] else show_nat (n div 10) @ [digit_char (n mod 10)])"

text \<open>\<open>Number(s)\<close> on a string: white space is trimmed, the empty string is 0, an optionally
  signed run of decimal digits is that integer; every other string (fractions, exponents,
  hexadecimal literals, \<open>Infinity\<close>, text that is no number) is left to the parameter.\<close>

definition StringToNumber :: "builtins \<Rightarrow> string \<Rightarrow> jsnum" where
  "StringToNumber B s =
     (let t = trim s in
      case t of
        [] \<Rightarrow> Fin 0
      | c # ds \<Rightarrow>
          if is_digit c \<and> list_all is_digit ds then Fin (real (digits_val t))
          else if c = CHR ''+'' \<and> ds \<noteq> [] \<and> list_all is_digit ds then Fin (real (digits_val ds))
          else if c = CHR ''-'' \<and> ds \<noteq> [] \<and> list_all is_digit ds then Fin (- real (digits_val ds))
          else StringToNumber_other B t)"

fun intercalate :: "string \<Rightarrow> string list \<Rightarrow> string" where
  "intercalate sep [] = []"
| "intercalate sep [x] = x"
| "intercalate sep (x # y # ys) = x @ sep @ intercalate sep (y # ys)"

fun ToString :: "builtins \<Rightarrow> jsval \<Rightarrow> string" where
  "ToString B JUndefined = ''undefined''"
| "ToString B JNull = ''null''"
| "ToString B (JBool b) = (if b then ''true'' else ''false'')"
| "ToString B (JNum n) = NumberToString B n"
| "ToString B (JStr s) = s"
| "ToString B (JDate t) = DateToString B t"
| "ToString B (JArr xs) =
     intercalate '','' (map (\<lambda>x. if nullish x then [] else ToString B x) xs)"
| "ToString B (JObj kvs) = ''[object Object]''"

fun ToNumber :: "builtins \<Rightarrow> jsval \<Rightarrow> jsnum" where
  "ToNumber B JUndefined = NaN"
| "ToNumber B JNull = Fin 0"
| "ToNumber B (JBool b) = Fin (if b then 1 else 0)"
| "ToNumber B (JNum n) = n"
| "ToNumber B (JStr s) = StringToNumber B s"
| "ToNumber B (JDate t) = Fin (real_of_int t)"
| "ToNumber B (JArr xs) = StringToNumber B (ToString B (JArr xs))"
| "ToNumber B (JObj kvs) = NaN"

subsection \<open>Arithmetic on numbers\<close>

text \<open>\<open>a * b\<close>: the exact product, rounded to a double.\<close>

fun js_mul :: "builtins \<Rightarrow> jsnum \<Rightarrow> jsnum \<Rightarrow> jsnum" where
  "js_mul B (Fin a) (Fin b) = Fin (round_double B (a * b))"
| "js_mul B a b = NaN"

text \<open>\<open>Math.round(x)\<close>: the nearest integer, halves upwards. Every integer it yields is
  a double, so nothing is rounded a second time.\<close>

fun Math_round :: "jsnum \<Rightarrow> jsnum" where
  "Math_round (Fin r) = Fin (real_of_int \<lfloor>r + 1 / 2\<rfloor>)"
| "Math_round NaN = NaN"

fun js_lt :: "jsnum \<Rightarrow> jsnum \<Rightarrow> bool" where
  "js_lt (Fin a) (Fin b) = (a < b)"
| "js_lt a b = False"

text \<open>Own enumerable properties, as \<open>{ ...v }\<close> copies them.\<close>

fun spread :: "jsval \<Rightarrow> (string \<times> jsval) list" where
  "spread (JObj kvs) = kvs"
| "spread (JArr xs) = zip (map show_nat [0..<length xs]) xs"
| "spread (JStr s) = zip (map show_nat [0..<length s]) (map (\<lambda>c. JStr [c]) s)"
| "spread v = []"

section \<open>Pricing: the rate fetcher and its cache\<close>

text \<open>\<open>COINGECKO_IDS\<close> is an object literal, so \<open>COINGECKO_IDS[symb]\<close> finds its eight own
  properties and, for other keys, the properties it inherits from \<open>Object.prototype\<close>.
  Those are functions (and, for \<open>__proto__\<close>, the prototype object): all truthy. The
  program uses the value found only as a string (in \<open>encodeURIComponent(id)\<close> and as the
  key \<open>data[id]\<close>), so the table gives each inherited property by its string conversion
  in Node.js.\<close>

definition COINGECKO_IDS :: "(string \<times> string) list" where
  "COINGECKO_IDS =
     [(''ltc'', ''litecoin''), (''btc'', ''bitcoin''), (''eth'', ''ethereum''),
      (''doge'', ''dogecoin''), (''bch'', ''bitcoin-cash''), (''xrp'', ''ripple''),
      (''usdt'', ''tether''), (''usdc'', ''usd-coin'')]"

definition native_function :: "string \<Rightarrow> string" where
  "native_function name = ''function '' @ name @ ''() { [native code] }''"

definition Object_prototype :: "(string \<times> string) list" where
  "Object_prototype =
     [(''constructor'', native_function ''Object''),
      (''__proto__'', ''[object Object]''),
      (''hasOwnProperty'', native_function ''hasOwnProperty''),
      (''isPrototypeOf'', native_function ''isPrototypeOf''),
      (''propertyIsEnumerable'', native_function ''propertyIsEnumerable''),
      (''toLocaleString'', native_function ''toLocaleString''),
      (''toString'', native_function ''toString''),
      (''valueOf'', native_function ''valueOf''),
      (''__defineGetter__'', native_function ''__defineGetter__''),
      (''__defineSetter__'', native_function ''__defineSetter__''),
      (''__lookupGetter__'', native_function ''__lookupGetter__''),
      (''__lookupSetter__'', native_function ''__lookupSetter__'')]"

definition COINGECKO_IDS_get :: "string \<Rightarrow> string option" where
  "COINGECKO_IDS_get symb =
     (case map_of COINGECKO_IDS symb of
        Some i \<Rightarrow> Some i
      | None \<Rightarrow> map_of Object_prototype symb)"

text \<open>The provider's answer to one request: \<open>fetch\<close> rejects, or resolves to a response
  with its \<open>ok\<close> flag and a body that \<open>resp.json()\<close> parses or rejects. A request is
  named by the identifier it asks for, which fixes its URL.\<close>

datatype body = Malformed | Json jsval

datatype fetch_result = Rejected | Response bool body

type_synonym price_cache = "string \<rightharpoonup> (jsnum \<times> int)"

text \<open>\<open>Number(PRICE_TTL_MS) || 60000\<close>, where \<open>PRICE_TTL_MS\<close> is the environment's string
  (\<open>"60000"\<close> when the variable is not set).\<close>

definition price_ttl :: "builtins \<Rightarrow> string \<Rightarrow> jsnum" where
  "price_ttl B PRICE_TTL_MS =
     (let n = StringToNumber B PRICE_TTL_MS in if truthy (JNum n) then n else Fin 60000)"

text \<open>\<open>getUsdRate(symbol)\<close> at time \<open>now\<close> (\<open>Date.now()\<close>) against the provider \<open>net\<close>:
  the value returned, the cache afterwards and the requests issued. Every exception of
  the \<open>try\<close> block is caught there, so each failure is a branch that returns \<open>null\<close>.\<close>

definition getUsdRate ::
  "builtins \<Rightarrow> string \<Rightarrow> int \<Rightarrow> (string \<Rightarrow> fetch_result) \<Rightarrow> price_cache \<Rightarrow> jsval
     \<Rightarrow> jsval \<times> price_cache \<times> string list" where
  "getUsdRate B PRICE_TTL_MS now net cache symbol =
     (if truthy symbol then
        (let symb = toLowerCase (ToString B symbol) in
         case COINGECKO_IDS_get symb of
           None \<Rightarrow> (JNull, cache, [])
         | Some i \<Rightarrow>
             (let ttl = price_ttl B PRICE_TTL_MS;
                  fresh = (case cache symb of
                             None \<Rightarrow> None
                           | Some (price, ts) \<Rightarrow>
                               if js_lt (Fin (real_of_int (now - ts))) ttl then Some price
                               else None)
              in case fresh of
                   Some price \<Rightarrow> (JNum price, cache, [])
                 | None \<Rightarrow>
                     (case net i of
                        Rejected \<Rightarrow> (JNull, cache, [i])
                      | Response ok b \<Rightarrow>
                          if ok then
                            (case b of
                               Malformed \<Rightarrow> (JNull, cache, [i])
                             | Json data \<Rightarrow>
                                 (case get_prop (get_prop data i) ''usd'' of
                                    JNum price \<Rightarrow> (JNum price, cache(symb \<mapsto> (price, now)), [i])
                                  | _ \<Rightarrow> (JNull, cache, [i])))
                          else (JNull, cache, [i]))))
      else (JNull, cache, []))"

section \<open>The cashout normalizer\<close>

definition set_prop :: "string \<Rightarrow> jsval \<Rightarrow> (string \<times> jsval) list \<Rightarrow> (string \<times> jsval) list" where
  "set_prop k v kvs = AList.update k v kvs"

definition get_own :: "(string \<times> jsval) list \<Rightarrow> string \<Rightarrow> jsval" where
  "get_own kvs k = get_prop (JObj kvs) k"

definition number_or_undefined :: "jsval \<Rightarrow> jsval" where
  "number_or_undefined v = (if is_number v then v else JUndefined)"

text \<open>\<open>normalizeCashoutToUSD(doc)\<close>: the document returned, the cache afterwards and the
  requests issued. \<open>out.amountCrypto * r\<close> multiplies the number just stored under
  \<open>amountCrypto\<close> (no later assignment touches that key) with a rate whose type is number.\<close>

definition normalizeCashoutToUSD ::
  "builtins \<Rightarrow> string \<Rightarrow> int \<Rightarrow> (string \<Rightarrow> fetch_result) \<Rightarrow> price_cache \<Rightarrow> jsval
     \<Rightarrow> jsval \<times> price_cache \<times> string list" where
  "normalizeCashoutToUSD B PRICE_TTL_MS now net cache doc =
     (if truthy doc then
        (let out0 = spread doc;
             amountCrypto = ToNumber B (js_or (get_own out0 ''amount'') (JNum (Fin 0)));
             out1 = set_prop ''amountCrypto'' (JNum amountCrypto) out0;
             payoutCrypto = ToNumber B (js_or (get_own out1 ''payout'') (JNum (Fin 0)));
             out2 = set_prop ''payoutCrypto'' (JNum payoutCrypto) out1;
             amountUSD = number_or_undefined (get_own out2 ''amountUSD'');
             payoutUSD = number_or_undefined (get_own out2 ''payoutUSD'')
         in if amountUSD = JUndefined \<or> payoutUSD = JUndefined then
              (case getUsdRate B PRICE_TTL_MS now net cache (get_own out2 ''currency'') of
                 (JNum r, cache', reqs) \<Rightarrow>
                   (JObj (set_prop ''payout''
                            (if payoutUSD = JUndefined then JNum (js_mul B payoutCrypto r) else payoutUSD)
                            (set_prop ''amount''
                               (if amountUSD = JUndefined then JNum (js_mul B amountCrypto r) else amountUSD)
                               out2)),
                    cache', reqs)
               | (other, cache', reqs) \<Rightarrow>
                   (JObj (set_prop ''payout'' (js_coalesce payoutUSD (JNum (Fin 0)))
                            (set_prop ''amount'' (js_coalesce amountUSD (JNum (Fin 0))) out2)),
                    cache', reqs))
            else
              (JObj (set_prop ''payout'' payoutUSD (set_prop ''amount'' amountUSD out2)), cache, []))
      else (doc, cache, []))"

section \<open>The document store\<close>

text \<open>
  The persistence engine is used as a generic document store: a collection is the list of
  its documents in the store's own order, a new document goes to the end and an update
  changes a document where it stands. Schema casting by the mapping layer, the generated
  \<open>_id\<close> and failures of the store are not represented: a value is stored as the handler
  passes it, and the records evaluated below hold strings where the schema declares a
  string and numbers where it declares a number, which the casts leave as they are. An
  \<open>undefined\<close> value in an update is, depending on the version of the mapping layer, either
  left out of the update, so that the key keeps what it had (the versions since 6), or
  written as \<open>null\<close> (version 5, unless told to leave it out); the flag \<open>omitUndefined\<close>
  says which.
\<close>

type_synonym doc = "(string \<times> jsval) list"

record db =
  accounts :: "doc list"
  cashouts :: "doc list"

definition set_field :: "bool \<Rightarrow> string \<times> jsval \<Rightarrow> doc \<Rightarrow> doc" where
  "set_field omitUndefined kv d =
     (if snd kv = JUndefined then (if omitUndefined then d else set_prop (fst kv) JNull d)
      else set_prop (fst kv) (snd kv) d)"

definition apply_set :: "bool \<Rightarrow> doc \<Rightarrow> doc \<Rightarrow> doc" where
  "apply_set omitUndefined upd d = fold (set_field omitUndefined) upd d"

text \<open>\<open>Model.updateOne({ id: key }, { $setOnInsert: ins, $set: upd }, { upsert: true })\<close>:
  the first document whose \<open>id\<close> is the key gets the \<open>$set\<close>; when there is none, a
  document made of the filter, the \<open>$setOnInsert\<close> and the \<open>$set\<close> is inserted.\<close>

fun updateOne :: "bool \<Rightarrow> jsval \<Rightarrow> doc \<Rightarrow> doc \<Rightarrow> doc list \<Rightarrow> doc list" where
  "updateOne omitUndefined key ins upd [] =
     [apply_set omitUndefined upd (apply_set omitUndefined ins [(''id'', key)])]"
| "updateOne omitUndefined key ins upd (d # ds) =
     (if get_own d ''id'' = key then apply_set omitUndefined upd d # ds
      else d # updateOne omitUndefined key ins upd ds)"

text \<open>The documents that the filter \<open>{ id: key }\<close> matches.\<close>

definition has_id :: "jsval \<Rightarrow> doc \<Rightarrow> bool" where
  "has_id key d = (get_own d ''id'' = key)"

text \<open>The account schema has \<open>timestamps\<close>: an update sets \<open>updatedAt\<close>, an insert also
  \<open>createdAt\<close>.\<close>

definition upsert_account :: "bool \<Rightarrow> int \<Rightarrow> jsval \<Rightarrow> jsval \<Rightarrow> doc list \<Rightarrow> doc list" where
  "upsert_account omitUndefined now key name acs =
     updateOne omitUndefined key [(''createdAt'', JDate now)]
       [(''name'', js_coalesce name JNull), (''updatedAt'', JDate now)] acs"

section \<open>The ingestion handlers\<close>

record response =
  status :: nat
  json :: jsval

definition bad_request :: "string \<Rightarrow> response" where
  "bad_request msg = \<lparr>status = 400, json = JObj [(''error'', JStr msg)]\<rparr>"

definition server_error :: response where
  "server_error = \<lparr>status = 500, json = JObj [(''error'', JStr ''server'')]\<rparr>"

definition js_not :: "jsval \<Rightarrow> bool" where
  "js_not v = (\<not> truthy v)"

text \<open>\<open>x?.toLowerCase()\<close>: \<open>undefined\<close> when \<open>x\<close> is nullish, otherwise the call.\<close>

definition opt_toLowerCase :: "jsval \<Rightarrow> error + jsval" where
  "opt_toLowerCase v = (if nullish v then Inr JUndefined else call_toLowerCase v)"

definition Number :: "builtins \<Rightarrow> jsval \<Rightarrow> jsval" where
  "Number B v = JNum (ToNumber B v)"

definition js_zero :: jsval where
  "js_zero = JNum (Fin 0)"

text \<open>\<open>POST /api/cashouts\<close> with body \<open>{ minesCashout, user }\<close>, at time \<open>now\<close>. The
  \<open>$set\<close> of the cashout is built after the account upsert; a TypeError raised while it is
  built (a \<open>game\<close> or \<open>currency\<close> that is neither nullish nor a string) is caught by the
  handler's \<open>catch\<close>, and the account upsert before it stays.\<close>

definition cashouts_set :: "builtins \<Rightarrow> int \<Rightarrow> jsval \<Rightarrow> error + doc" where
  "cashouts_set B now req_body =
     (let b = js_or req_body (JObj []);
          minesCashout = get_prop b ''minesCashout'';
          user = get_prop b ''user''
      in case opt_toLowerCase (get_prop minesCashout ''game'') of
           Inl e \<Rightarrow> Inl e
         | Inr game \<Rightarrow>
             (case opt_toLowerCase (get_prop minesCashout ''currency'') of
                Inl e \<Rightarrow> Inl e
              | Inr currency \<Rightarrow>
                  Inr [(''accountId'', get_prop user ''id''),
                       (''game'', js_coalesce game JNull),
                       (''currency'', js_coalesce currency JNull),
                       (''payout'', Number B (js_or (get_prop minesCashout ''payout'') js_zero)),
                       (''amount'', Number B (js_or (get_prop minesCashout ''amount'') js_zero)),
                       (''payoutMultiplier'',
                          Number B (js_or (get_prop minesCashout ''payoutMultiplier'') js_zero)),
                       (''amountMultiplier'',
                          Number B (js_or (get_prop minesCashout ''amountMultiplier'') js_zero)),
                       (''payoutUSD'', number_or_undefined (get_prop minesCashout ''payoutUSD'')),
                       (''amountUSD'', number_or_undefined (get_prop minesCashout ''amountUSD'')),
                       (''updatedAt'', js_coalesce (get_prop minesCashout ''updatedAt'') JNull),
                       (''rawJson'', req_body),
                       (''capturedAt'', JDate now)]))"

definition post_cashouts :: "builtins \<Rightarrow> bool \<Rightarrow> int \<Rightarrow> jsval \<Rightarrow> db \<Rightarrow> response \<times> db" where
  "post_cashouts B omitUndefined now req_body s =
     (let b = js_or req_body (JObj []);
          minesCashout = get_prop b ''minesCashout'';
          user = get_prop b ''user''
      in if js_not (get_prop minesCashout ''id'') \<or> js_not (get_prop user ''id'') then
           (bad_request ''missing minesCashout.id or user.id'', s)
         else
           (let s1 = s\<lparr>accounts :=
                        upsert_account omitUndefined now (get_prop user ''id'')
                          (get_prop user ''name'') (accounts s)\<rparr>
            in case cashouts_set B now req_body of
                 Inl e \<Rightarrow> (server_error, s1)
               | Inr upd \<Rightarrow>
                   (\<lparr>status = 200, json = JObj [(''ok'', JBool True)]\<rparr>,
                    s1\<lparr>cashouts :=
                         updateOne omitUndefined (get_prop minesCashout ''id'')
                           [(''id'', get_prop minesCashout ''id'')] upd (cashouts s1)\<rparr>)))"

text \<open>\<open>POST /api/cashout\<close> with a flattened body. The record \<open>flat\<close> is built before the
  validation, so a TypeError raised while building it (a \<open>game\<close> or \<open>currency\<close> that is
  truthy and not a string) ends the request in the \<open>catch\<close> before anything is checked
  or written.\<close>

definition flat_fields :: "builtins \<Rightarrow> jsval \<Rightarrow> error + doc" where
  "flat_fields B b =
     (let preview = get_prop b ''preview'' in
      case call_toLowerCase
             (js_or (js_or (get_prop b ''game'') (get_prop preview ''game'')) (JStr ''mines'')) of
        Inl e \<Rightarrow> Inl e
      | Inr game \<Rightarrow>
          (case call_toLowerCase
                  (js_or (js_or (get_prop b ''currency'') (get_prop preview ''currency'')) (JStr [])) of
             Inl e \<Rightarrow> Inl e
           | Inr currency \<Rightarrow>
               Inr [(''id'',
                       js_or (js_or (get_prop b ''id'') (get_prop b ''cashoutId'')) (get_prop preview ''id'')),
                    (''accountId'',
                       js_or (js_or (get_prop b ''accountId'') (get_prop (get_prop b ''user'') ''id''))
                         (get_prop (get_prop preview ''user'') ''id'')),
                    (''accountName'',
                       js_or (js_or (get_prop b ''accountName'') (get_prop (get_prop b ''user'') ''name''))
                         (get_prop (get_prop preview ''user'') ''name'')),
                    (''game'', game),
                    (''currency'', currency),
                    (''payout'',
                       Number B (js_coalesce (js_coalesce (get_prop b ''payout'') (get_prop preview ''payout'')) js_zero)),
                    (''payoutMultiplier'',
                       Number B (js_coalesce (js_coalesce (get_prop b ''payoutMultiplier'')
                                                (get_prop preview ''payoutMultiplier'')) js_zero)),
                    (''amount'',
                       Number B (js_coalesce (js_coalesce (get_prop b ''amount'') (get_prop preview ''amount'')) js_zero)),
                    (''amountMultiplier'',
                       Number B (js_coalesce (js_coalesce (get_prop b ''amountMultiplier'')
                                                (get_prop preview ''amountMultiplier'')) js_zero)),
                    (''updatedAt'',
                       js_or (js_or (get_prop b ''updatedAt'') (get_prop preview ''updatedAt'')) JNull),
                    (''payoutUSD'', number_or_undefined (get_prop b ''payoutUSD'')),
                    (''amountUSD'', number_or_undefined (get_prop b ''amountUSD'')),
                    (''rawJson'', b)]))"

definition cashout_set :: "int \<Rightarrow> doc \<Rightarrow> doc" where
  "cashout_set now flat =
     [(''accountId'', get_own flat ''accountId''),
      (''game'', get_own flat ''game''),
      (''currency'', get_own flat ''currency''),
      (''payout'', get_own flat ''payout''),
      (''payoutMultiplier'', get_own flat ''payoutMultiplier''),
      (''amount'', get_own flat ''amount''),
      (''amountMultiplier'', get_own flat ''amountMultiplier''),
      (''updatedAt'', get_own flat ''updatedAt''),
      (''payoutUSD'', get_own flat ''payoutUSD''),
      (''amountUSD'', get_own flat ''amountUSD''),
      (''rawJson'', get_own flat ''rawJson''),
      (''capturedAt'', JDate now)]"

definition post_cashout :: "builtins \<Rightarrow> bool \<Rightarrow> int \<Rightarrow> jsval \<Rightarrow> db \<Rightarrow> response \<times> db" where
  "post_cashout B omitUndefined now req_body s =
     (let b = js_or req_body (JObj []) in
      case flat_fields B b of
        Inl e \<Rightarrow> (server_error, s)
      | Inr flat \<Rightarrow>
          if js_not (get_own flat ''id'') \<or> js_not (get_own flat ''accountId'') then
            (bad_request ''missing id or accountId'', s)
          else
            (let s1 = s\<lparr>accounts :=
                         upsert_account omitUndefined now (get_own flat ''accountId'')
                           (get_own flat ''accountName'') (accounts s)\<rparr>
             in (\<lparr>status = 200, json = JObj [(''ok'', JBool True), (''id'', get_own flat ''id'')]\<rparr>,
                 s1\<lparr>cashouts :=
                      updateOne omitUndefined (get_own flat ''id'')
                        [(''id'', get_own flat ''id'')] (cashout_set now flat) (cashouts s1)\<rparr>)))"

text \<open>The two accepted requests, and what each carries: the external cashout id and the
  \<open>$set\<close> its handler builds (empty when building it raises).\<close>

datatype request = Nested jsval | Flat jsval

definition ingest :: "builtins \<Rightarrow> bool \<Rightarrow> int \<Rightarrow> request \<Rightarrow> db \<Rightarrow> response \<times> db" where
  "ingest B omitUndefined now r s =
     (case r of
        Nested req_body \<Rightarrow> post_cashouts B omitUndefined now req_body s
      | Flat req_body \<Rightarrow> post_cashout B omitUndefined now req_body s)"

definition cashout_id :: "request \<Rightarrow> jsval" where
  "cashout_id r =
     (case r of
        Nested req_body \<Rightarrow> get_prop (get_prop (js_or req_body (JObj [])) ''minesCashout'') ''id''
      | Flat req_body \<Rightarrow>
          (let b = js_or req_body (JObj [])
           in js_or (js_or (get_prop b ''id'') (get_prop b ''cashoutId''))
                (get_prop (get_prop b ''preview'') ''id'')))"

definition payload_set :: "builtins \<Rightarrow> int \<Rightarrow> request \<Rightarrow> doc" where
  "payload_set B now r =
     (case r of
        Nested req_body \<Rightarrow> (case cashouts_set B now req_body of Inl e \<Rightarrow> [] | Inr upd \<Rightarrow> upd)
      | Flat req_body \<Rightarrow>
          (case flat_fields B (js_or req_body (JObj [])) of
             Inl e \<Rightarrow> []
           | Inr flat \<Rightarrow> cashout_set now flat))"

section \<open>The account summary\<close>

text \<open>The aggregation pipeline of \<open>GET /api/accounts/:id/summary\<close>: \<open>$match\<close> keeps the
  documents of the account. The pipeline has no \<open>$sort\<close>, so they reach \<open>$group\<close> in the
  order in which the store reads them, taken here to be the order of the collection
  (that of insertion: an update does not move a document). \<open>$group\<close> yields one
  document, or none when nothing matched. \<open>$sum\<close> adds the numeric values of a
  field and ignores the others: it is 0 when there is none, \<open>NaN\<close> when one of them is
  \<open>NaN\<close>, and otherwise the sum that the store computes. \<open>$max\<close> is the greatest numeric
  value (\<open>NaN\<close> below every number), \<open>null\<close> when there is none; \<open>$last\<close> reads the
  field in the last document of the group.\<close>

definition matching :: "string \<Rightarrow> doc list \<Rightarrow> doc list" where
  "matching account ds = filter (\<lambda>d. get_own d ''accountId'' = JStr account) ds"

fun numbers :: "jsval list \<Rightarrow> jsnum list" where
  "numbers [] = []"
| "numbers (JNum n # vs) = n # numbers vs"
| "numbers (v # vs) = numbers vs"

fun finite_part :: "jsnum \<Rightarrow> real" where
  "finite_part (Fin r) = r"
| "finite_part NaN = 0"

definition sum_field :: "builtins \<Rightarrow> string \<Rightarrow> doc list \<Rightarrow> jsnum" where
  "sum_field B k ds =
     (let ns = numbers (map (\<lambda>d. get_own d k) ds) in
      if ns = [] then Fin 0
      else if NaN \<in> set ns then NaN
      else Fin (store_sum B (map finite_part ns)))"

fun bson_max :: "jsnum \<Rightarrow> jsnum \<Rightarrow> jsnum" where
  "bson_max (Fin a) (Fin b) = Fin (max a b)"
| "bson_max NaN b = b"
| "bson_max a NaN = a"

definition max_field :: "string \<Rightarrow> doc list \<Rightarrow> jsval" where
  "max_field k ds =
     (case numbers (map (\<lambda>d. get_own d k) ds) of
        [] \<Rightarrow> JNull
      | n # ns \<Rightarrow> JNum (foldl bson_max n ns))"

definition aggregate :: "builtins \<Rightarrow> string \<Rightarrow> doc list \<Rightarrow> jsval" where
  "aggregate B account cs =
     (let ds = matching account cs in
      if ds = [] then JUndefined
      else JObj [(''_id'', JNull),
                 (''totalBets'', JNum (Fin (real (length ds)))),
                 (''maxMult'', max_field ''payoutMultiplier'' ds),
                 (''totalPayoutUSD'', JNum (sum_field B ''payoutUSD'' ds)),
                 (''totalAmountUSD'', JNum (sum_field B ''amountUSD'' ds)),
                 (''totalPayoutCrypto'', JNum (sum_field B ''payout'' ds)),
                 (''totalAmountCrypto'', JNum (sum_field B ''amount'' ds)),
                 (''lastCurrency'', js_coalesce (get_own (last ds) ''currency'') JNull)])"

text \<open>\<open>Math.round(x * 100) / 100\<close>, on doubles: the product is rounded to a double before
  \<open>Math.round\<close> sees it, and so is the quotient.\<close>

definition round2 :: "builtins \<Rightarrow> jsnum \<Rightarrow> jsnum" where
  "round2 B x =
     (case Math_round (js_mul B x (Fin 100)) of
        NaN \<Rightarrow> NaN
      | Fin n \<Rightarrow> Fin (round_double B (n / 100)))"

record totals =
  totalBets :: jsval
  maxMult :: jsval
  totalPayout :: jsnum
  totalAmountUSD :: jsnum

text \<open>The totals of the summary (the part of the handler after the top three): the totals
  sent, the cache afterwards and the requests issued. The cache is the one the
  normalization of the top three has left.\<close>

definition summary_totals ::
  "builtins \<Rightarrow> string \<Rightarrow> int \<Rightarrow> (string \<Rightarrow> fetch_result) \<Rightarrow> price_cache \<Rightarrow> doc list \<Rightarrow> string
     \<Rightarrow> totals \<times> price_cache \<times> string list" where
  "summary_totals B PRICE_TTL_MS now net cache cs account =
     (let t = aggregate B account cs;
          bets = js_or (get_prop t ''totalBets'') js_zero;
          mult = js_or (get_prop t ''maxMult'') js_zero;
          payout0 = js_or (get_prop t ''totalPayoutUSD'') js_zero;
          amount0 = js_or (get_prop t ''totalAmountUSD'') js_zero
      in if js_not t \<or> payout0 = js_zero \<or> amount0 = js_zero then
           (case getUsdRate B PRICE_TTL_MS now net cache
                   (js_or (get_prop t ''lastCurrency'') (JStr ''ltc'')) of
              (JNum r, cache', reqs) \<Rightarrow>
                (\<lparr>totalBets = bets, maxMult = mult,
                  totalPayout =
                    round2 B (if payout0 = js_zero
                            then js_mul B (ToNumber B (js_or (get_prop t ''totalPayoutCrypto'') js_zero)) r
                            else ToNumber B payout0),
                  totalAmountUSD =
                    round2 B (if amount0 = js_zero
                            then js_mul B (ToNumber B (js_or (get_prop t ''totalAmountCrypto'') js_zero)) r
                            else ToNumber B amount0)\<rparr>,
                 cache', reqs)
            | (other, cache', reqs) \<Rightarrow>
                (\<lparr>totalBets = bets, maxMult = mult,
                  totalPayout = round2 B (ToNumber B payout0),
                  totalAmountUSD = round2 B (ToNumber B amount0)\<rparr>,
                 cache', reqs))
         else
           (\<lparr>totalBets = bets, maxMult = mult,
             totalPayout = round2 B (ToNumber B payout0),
             totalAmountUSD = round2 B (ToNumber B amount0)\<rparr>,
            cache, []))"

section \<open>Pagination\<close>

text \<open>\<open>parseInt(s, 10)\<close>: leading white space and one sign are skipped, the longest run of
  decimal digits is read, and the result is \<open>NaN\<close> when that run is empty.\<close>

definition parseInt10 :: "string \<Rightarrow> jsnum" where
  "parseInt10 s =
     (let t = dropWhile is_ws s;
          neg = (t \<noteq> [] \<and> hd t = CHR ''-'');
          u = (if t \<noteq> [] \<and> (hd t = CHR ''-'' \<or> hd t = CHR ''+'') then tl t else t);
          ds = takeWhile is_digit u
      in if ds = [] then NaN
         else if neg then Fin (- real (digits_val ds)) else Fin (real (digits_val ds)))"

fun Math_max :: "jsnum \<Rightarrow> jsnum \<Rightarrow> jsnum" where
  "Math_max (Fin a) (Fin b) = Fin (max a b)"
| "Math_max a b = NaN"

fun Math_min :: "jsnum \<Rightarrow> jsnum \<Rightarrow> jsnum" where
  "Math_min (Fin a) (Fin b) = Fin (min a b)"
| "Math_min a b = NaN"

text \<open>A query parameter is \<open>undefined\<close> when absent, otherwise what the query parser made
  of it; \<open>parseInt\<close> converts it to a string first.\<close>

definition cashouts_page :: "builtins \<Rightarrow> jsval \<Rightarrow> jsnum" where
  "cashouts_page B q = Math_max (Fin 1) (parseInt10 (ToString B (js_coalesce q (JStr ''1''))))"

definition cashouts_size :: "builtins \<Rightarrow> jsval \<Rightarrow> jsnum" where
  "cashouts_size B q =
     Math_min (Fin 200) (Math_max (Fin 1) (parseInt10 (ToString B (js_coalesce q (JStr ''50'')))))"

definition leaderboard_size :: "builtins \<Rightarrow> jsval \<Rightarrow> jsnum" where
  "leaderboard_size B q =
     Math_min (Fin 50) (Math_max (Fin 1) (parseInt10 (ToString B (js_coalesce q (JStr ''10'')))))"

section \<open>What the specification calls a fresh quote, and a successful fetch\<close>

text \<open>The environment's \<open>PRICE_TTL_MS\<close>: the destructuring default applies when the variable
  is not set.\<close>

definition env_PRICE_TTL_MS :: "string option \<Rightarrow> string" where
  "env_PRICE_TTL_MS v = (case v of None \<Rightarrow> ''60000'' | Some x \<Rightarrow> x)"

text \<open>In the words of the specification: the cache yields the rate of a symbol only if
  \<open>now - fetchedAt < freshnessWindow\<close>, otherwise nothing.\<close>

definition fresh_rate :: "builtins \<Rightarrow> string \<Rightarrow> int \<Rightarrow> price_cache \<Rightarrow> string \<Rightarrow> jsnum option" where
  "fresh_rate B PRICE_TTL_MS now cache symb =
     (case cache symb of
        None \<Rightarrow> None
      | Some (price, fetchedAt) \<Rightarrow>
          if js_lt (Fin (real_of_int (now - fetchedAt))) (price_ttl B PRICE_TTL_MS) then Some price
          else None)"

text \<open>A fetch succeeds with a quote when the response is a success, its body parses and
  holds a number under the identifier's \<open>usd\<close>.\<close>

definition quote :: "fetch_result \<Rightarrow> string \<Rightarrow> jsnum option" where
  "quote res i =
     (case res of
        Response True (Json data) \<Rightarrow>
          (case get_prop (get_prop data i) ''usd'' of JNum price \<Rightarrow> Some price | _ \<Rightarrow> None)
      | _ \<Rightarrow> None)"

section \<open>Concrete inputs\<close>

text \<open>An instance of the parameters. None of the inputs below makes the program consult
  its conversions, and every product, sum and quotient that they make it compute is a
  double itself (the operands are integers of a few digits, the results integers): no
  double arithmetic rounds there, so rounding is the identity and the store's sum the
  exact one. Then a provider that quotes one price for every identifier, one that cannot
  be reached, and documents and bodies on which the properties are evaluated.\<close>

definition plain_builtins :: builtins where
  "plain_builtins =
     \<lparr>StringToNumber_other = (\<lambda>s. NaN), NumberToString = (\<lambda>n. []), DateToString = (\<lambda>t. []),
      round_double = (\<lambda>r. r), store_sum = sum_list\<rparr>"

definition quoting :: "real \<Rightarrow> string \<Rightarrow> fetch_result" where
  "quoting r i = Response True (Json (JObj [(i, JObj [(''usd'', JNum (Fin r))])]))"

definition unavailable :: "string \<Rightarrow> fetch_result" where
  "unavailable i = Rejected"

definition doc_stored_usd :: jsval where
  "doc_stored_usd =
     JObj [(''id'', JStr ''c1''), (''currency'', JStr ''ltc''), (''amount'', JNum (Fin 2)),
           (''payout'', JNum (Fin 3)), (''amountUSD'', JNum (Fin 10)), (''payoutUSD'', JNum (Fin 20))]"

definition doc_ltc :: doc where
  "doc_ltc =
     [(''id'', JStr ''c2''), (''currency'', JStr ''ltc''), (''amount'', JNum (Fin 2)),
      (''payout'', JNum (Fin 3))]"

definition empty_db :: db where
  "empty_db = \<lparr>accounts = [], cashouts = []\<rparr>"

definition body_first :: jsval where
  "body_first =
     JObj [(''minesCashout'',
              JObj [(''id'', JStr ''c1''), (''game'', JStr ''Mines''), (''currency'', JStr ''LTC''),
                    (''payout'', JNum (Fin 3)), (''amount'', JNum (Fin 2)),
                    (''payoutMultiplier'', JNum (Fin (3 / 2))), (''amountMultiplier'', JNum (Fin 1)),
                    (''payoutUSD'', JNum (Fin 150)), (''amountUSD'', JNum (Fin 100)),
                    (''updatedAt'', JStr ''t1'')]),
           (''user'', JObj [(''id'', JStr ''u1''), (''name'', JStr ''Ann'')])]"

definition body_second :: jsval where
  "body_second =
     JObj [(''id'', JStr ''c1''), (''accountId'', JStr ''u1''), (''currency'', JStr ''BTC''),
           (''payout'', JNum (Fin 7)), (''amount'', JNum (Fin 5)),
           (''payoutMultiplier'', JNum (Fin (7 / 4))), (''payoutUSD'', JNum (Fin 70))]"

section \<open>Notions of the specification\<close>

text \<open>In the words of the specification: the crypto fields of a record are present
  (numbers); its USD fields, when they hold a number, are not negative; the record of a
  collection that was captured most recently. \<open>client_usd\<close> is the USD value that the
  payload of a request carries under a name.\<close>

definition crypto_present :: "doc \<Rightarrow> bool" where
  "crypto_present d = (is_number (get_own d ''amount'') \<and> is_number (get_own d ''payout''))"

definition usd_not_negative :: "doc \<Rightarrow> bool" where
  "usd_not_negative d =
     ((case get_own d ''amountUSD'' of JNum (Fin x) \<Rightarrow> 0 \<le> x | _ \<Rightarrow> True)
      \<and> (case get_own d ''payoutUSD'' of JNum (Fin x) \<Rightarrow> 0 \<le> x | _ \<Rightarrow> True))"

definition client_usd :: "request \<Rightarrow> string \<Rightarrow> jsval" where
  "client_usd r k =
     (case r of
        Nested req_body \<Rightarrow> get_prop (get_prop (js_or req_body (JObj [])) ''minesCashout'') k
      | Flat req_body \<Rightarrow> get_prop (js_or req_body (JObj [])) k)"

definition captured_time :: "doc \<Rightarrow> int" where
  "captured_time d = (case get_own d ''capturedAt'' of JDate t \<Rightarrow> t | _ \<Rightarrow> 0)"

definition most_recently_captured :: "doc list \<Rightarrow> doc option" where
  "most_recently_captured ds =
     (case ds of
        [] \<Rightarrow> None
      | d # rest \<Rightarrow> Some (foldl (\<lambda>best x. if captured_time best < captured_time x then x else best) d rest))"

section \<open>More concrete inputs\<close>

definition body_negative_usd :: jsval where
  "body_negative_usd =
     JObj [(''minesCashout'',
              JObj [(''id'', JStr ''c9''), (''currency'', JStr ''ltc''), (''payout'', JNum (Fin 3)),
                    (''amount'', JNum (Fin 2)), (''amountUSD'', JNum (Fin (- 5)))]),
           (''user'', JObj [(''id'', JStr ''u1'')])]"

definition mc_negative_usd :: jsval where
  "mc_negative_usd = JObj [(''id'', JStr ''c9''), (''currency'', JStr ''ltc''), (''payout'', JNum (Fin 3)),
                    (''amount'', JNum (Fin 2)), (''amountUSD'', JNum (Fin (- 5)))]"

definition body_ltc :: jsval where
  "body_ltc = JObj [(''minesCashout'', JObj [(''id'', JStr ''c1''), (''currency'', JStr ''ltc''), (''payout'', JNum (Fin 1))]),
                    (''user'', JObj [(''id'', JStr ''u1'')])]"

definition body_btc :: jsval where
  "body_btc = JObj [(''minesCashout'', JObj [(''id'', JStr ''c2''), (''currency'', JStr ''btc''), (''payout'', JNum (Fin 2))]),
                    (''user'', JObj [(''id'', JStr ''u1'')])]"

definition stored :: "string \<Rightarrow> string \<Rightarrow> real \<Rightarrow> jsval \<Rightarrow> int \<Rightarrow> doc" where
  "stored i c p raw t =
     [(''id'', JStr i), (''accountId'', JStr ''u1''), (''game'', JNull), (''currency'', JStr c),
      (''payout'', JNum (Fin p)), (''amount'', JNum (Fin 0)), (''payoutMultiplier'', JNum (Fin 0)),
      (''amountMultiplier'', JNum (Fin 0)), (''updatedAt'', JNull), (''rawJson'', raw),
      (''capturedAt'', JDate t)]"

definition store_reingested :: "doc list" where
  "store_reingested = [stored ''c1'' ''ltc'' 1 body_ltc 3, stored ''c2'' ''btc'' 2 body_btc 2]"

text \<open>A provider that quotes 1000 for \<open>bitcoin\<close> and 10 for every other identifier.\<close>

definition quoting_coins :: "string \<Rightarrow> fetch_result" where
  "quoting_coins i = (if i = ''bitcoin'' then quoting 1000 i else quoting 10 i)"

definition store_three :: "doc list" where
  "store_three = [stored ''c1'' ''ltc'' 1 JNull 1, stored ''c2'' ''ltc'' 2 JNull 2, stored ''c3'' ''ltc'' 3 JNull 3]"

section \<open>Properties of the normalizer\<close>

lemma plain_arithmetic:
  "round_double plain_builtins r = r" "store_sum plain_builtins rs = sum_list rs"
  by (simp_all add: plain_builtins_def)

lemma get_own_set_prop: "get_own (set_prop k v kvs) k' = (if k' = k then v else get_own kvs k')"
  by (simp add: get_own_def set_prop_def update_conv')

lemma get_prop_JObj: "get_prop (JObj kvs) k = get_own kvs k"
  by (simp add: get_own_def)

lemma get_prop_number_is_object: "get_prop doc k = JNum a \<Longrightarrow> \<exists>kvs. doc = JObj kvs"
  by (cases doc) simp_all

lemma normalize_stored_object:
  assumes a: "get_own kvs ''amountUSD'' = JNum a" and p: "get_own kvs ''payoutUSD'' = JNum p"
  shows "\<exists>out. normalizeCashoutToUSD B ttl now net cache (JObj kvs) = (JObj out, cache, [])
           \<and> get_own out ''amount'' = JNum a \<and> get_own out ''payout'' = JNum p"
  unfolding normalizeCashoutToUSD_def
  by (simp add: Let_def get_own_set_prop number_or_undefined_def a p)

text \<open>
  Claim C1. A cashout record that carries numeric \<open>amountUSD\<close> and \<open>payoutUSD\<close> is
  normalized to a record whose \<open>amount\<close> and \<open>payout\<close> are exactly the stored values, for
  every cache, every clock and every provider; no request is issued and the cache is
  left as it was.
\<close>

theorem normalize_stored_usd_precedence:
  assumes "get_prop doc ''amountUSD'' = JNum a" and "get_prop doc ''payoutUSD'' = JNum p"
  shows "\<exists>out. normalizeCashoutToUSD B ttl now net cache doc = (out, cache, [])
           \<and> get_prop out ''amount'' = JNum a \<and> get_prop out ''payout'' = JNum p"
proof -
  from assms(1) obtain kvs where d: "doc = JObj kvs"
    using get_prop_number_is_object by blast
  from assms have "get_own kvs ''amountUSD'' = JNum a" and "get_own kvs ''payoutUSD'' = JNum p"
    by (simp_all add: d get_prop_JObj del: get_prop.simps)
  from normalize_stored_object [OF this] obtain out where
    "normalizeCashoutToUSD B ttl now net cache (JObj kvs) = (JObj out, cache, [])"
    "get_own out ''amount'' = JNum a" "get_own out ''payout'' = JNum p"
    by blast
  then show ?thesis
    unfolding d by (intro exI [of _ "JObj out"]) (simp add: get_prop_JObj del: get_prop.simps)
qed

theorem normalize_stored_usd_precedence_witness:
  "\<exists>out. normalizeCashoutToUSD plain_builtins ''60000'' 0 unavailable Map.empty doc_stored_usd
            = (out, Map.empty, [])
         \<and> get_prop out ''amount'' = JNum (Fin 10) \<and> get_prop out ''payout'' = JNum (Fin 20)"
  using normalize_stored_usd_precedence
          [of doc_stored_usd "Fin 10" "Fin 20" plain_builtins "''60000''" 0 unavailable Map.empty]
  by (simp add: doc_stored_usd_def)

text \<open>
  Claim C2. When the rate fetcher yields a rate \<open>r\<close> for the record's currency (from a
  fresh cache entry or from a fetch), every USD field that the record does not store as
  a number becomes the record's crypto value (\<open>Number(amount || 0)\<close>, \<open>Number(payout || 0)\<close>)
  times \<open>r\<close>, and a stored one is kept.
\<close>

theorem normalize_missing_usd_is_crypto_times_rate:
  assumes r: "getUsdRate B ttl now net cache (get_own kvs ''currency'') = (JNum r, cache', reqs)"
    and m: "\<not> is_number (get_own kvs ''amountUSD'') \<or> \<not> is_number (get_own kvs ''payoutUSD'')"
  shows "\<exists>out. normalizeCashoutToUSD B ttl now net cache (JObj kvs) = (JObj out, cache', reqs)
           \<and> get_own out ''amount'' =
               (if is_number (get_own kvs ''amountUSD'') then get_own kvs ''amountUSD''
                else JNum (js_mul B (ToNumber B (js_or (get_own kvs ''amount'') js_zero)) r))
           \<and> get_own out ''payout'' =
               (if is_number (get_own kvs ''payoutUSD'') then get_own kvs ''payoutUSD''
                else JNum (js_mul B (ToNumber B (js_or (get_own kvs ''payout'') js_zero)) r))"
  using m unfolding normalizeCashoutToUSD_def
  by (auto simp add: Let_def get_own_set_prop number_or_undefined_def r js_zero_def)

lemma getUsdRate_ltc_fetched:
  "getUsdRate plain_builtins ''60000'' 1000 (quoting 50) Map.empty (JStr ''ltc'')
     = (JNum (Fin 50), [''ltc'' \<mapsto> (Fin 50, 1000)], [''litecoin''])"
  by (simp add: getUsdRate_def toLowerCase_def lower_char_def COINGECKO_IDS_get_def
        COINGECKO_IDS_def quoting_def)

theorem normalize_missing_usd_is_crypto_times_rate_witness:
  "\<exists>out. normalizeCashoutToUSD plain_builtins ''60000'' 1000 (quoting 50) Map.empty (JObj doc_ltc)
            = (JObj out, [''ltc'' \<mapsto> (Fin 50, 1000)], [''litecoin''])
         \<and> get_own out ''amount'' = JNum (Fin 100) \<and> get_own out ''payout'' = JNum (Fin 150)"
  using normalize_missing_usd_is_crypto_times_rate
          [of plain_builtins "''60000''" 1000 "quoting 50" Map.empty doc_ltc "Fin 50"
              "[''ltc'' \<mapsto> (Fin 50, 1000)]" "[''litecoin'']"]
        getUsdRate_ltc_fetched
  by (simp add: doc_ltc_def get_own_def js_or_def js_zero_def plain_arithmetic)

section \<open>Properties of the rate fetcher\<close>

lemma price_ttl_default: "price_ttl B (env_PRICE_TTL_MS None) = Fin 60000"
  by (simp add: env_PRICE_TTL_MS_def price_ttl_def StringToNumber_def trim_def is_ws_def
        is_digit_def digits_val_def digit_val_def)

text \<open>A rate is fresh exactly when the cache holds an entry for the symbol whose age is
  strictly below the window.\<close>

lemma fresh_rate_iff:
  "fresh_rate B ttl now cache symb = Some price \<longleftrightarrow>
     (\<exists>fetchedAt w. cache symb = Some (price, fetchedAt) \<and> price_ttl B ttl = Fin w
        \<and> real_of_int (now - fetchedAt) < w)"
  unfolding fresh_rate_def
  by (cases "price_ttl B ttl") (auto split: option.splits)

lemma getUsdRate_supported:
  assumes "truthy symbol" and "COINGECKO_IDS_get (toLowerCase (ToString B symbol)) = Some i"
  shows "getUsdRate B ttl now net cache symbol =
           (case fresh_rate B ttl now cache (toLowerCase (ToString B symbol)) of
              Some price \<Rightarrow> (JNum price, cache, [])
            | None \<Rightarrow>
                (case quote (net i) i of
                   Some price \<Rightarrow>
                     (JNum price, cache(toLowerCase (ToString B symbol) \<mapsto> (price, now)), [i])
                 | None \<Rightarrow> (JNull, cache, [i])))"
  using assms unfolding getUsdRate_def fresh_rate_def quote_def
  by (simp add: Let_def split: option.splits fetch_result.splits body.splits jsval.splits
        bool.splits prod.splits)


lemma toLowerCase_LTC: "toLowerCase ''LTC'' = ''ltc''"
  by (simp add: toLowerCase_def lower_char_def)

lemma COINGECKO_IDS_get_ltc: "COINGECKO_IDS_get ''ltc'' = Some ''litecoin''"
  by (simp add: COINGECKO_IDS_get_def COINGECKO_IDS_def)





subsection \<open>Failures of the provider\<close>

text \<open>The model of \<open>getUsdRate\<close> is a total function: no path raises. It returns a number
  or \<open>null\<close>, and \<open>null\<close> with the cache untouched whenever the fetch yields no quote.\<close>

lemma getUsdRate_number_or_null:
  "fst (getUsdRate B ttl now net cache symbol) = JNull
     \<or> is_number (fst (getUsdRate B ttl now net cache symbol))"
  unfolding getUsdRate_def
  by (simp add: Let_def split: option.splits fetch_result.splits body.splits jsval.splits
        bool.splits prod.splits)

lemma getUsdRate_not_found:
  "COINGECKO_IDS_get (toLowerCase (ToString B symbol)) = None \<Longrightarrow>
     getUsdRate B ttl now net cache symbol = (JNull, cache, [])"
  by (simp add: getUsdRate_def)

lemma getUsdRate_no_quote:
  assumes "truthy symbol" and "COINGECKO_IDS_get (toLowerCase (ToString B symbol)) = Some i"
    and "fresh_rate B ttl now cache (toLowerCase (ToString B symbol)) = None"
    and "quote (net i) i = None"
  shows "getUsdRate B ttl now net cache symbol = (JNull, cache, [i])"
  by (simp add: getUsdRate_supported [OF assms(1,2)] assms(3,4))

lemma quote_failures:
  "quote Rejected i = None"
  "quote (Response False b) i = None"
  "quote (Response True Malformed) i = None"
  "\<not> is_number (get_prop (get_prop data i) ''usd'') \<Longrightarrow> quote (Response True (Json data)) i = None"
  by (auto simp add: quote_def split: jsval.splits)

lemma is_number_not_nullish: "is_number v \<Longrightarrow> \<not> nullish v"
  by (cases v) simp_all

lemma normalize_no_rate_defaults_zero:
  assumes r: "getUsdRate B ttl now net cache (get_own kvs ''currency'') = (JNull, cache', reqs)"
    and m: "\<not> is_number (get_own kvs ''amountUSD'') \<or> \<not> is_number (get_own kvs ''payoutUSD'')"
  shows "\<exists>out. normalizeCashoutToUSD B ttl now net cache (JObj kvs) = (JObj out, cache', reqs)
           \<and> get_own out ''amount'' =
               (if is_number (get_own kvs ''amountUSD'') then get_own kvs ''amountUSD''
                else JNum (Fin 0))
           \<and> get_own out ''payout'' =
               (if is_number (get_own kvs ''payoutUSD'') then get_own kvs ''payoutUSD''
                else JNum (Fin 0))"
  using m unfolding normalizeCashoutToUSD_def
  by (auto simp add: Let_def get_own_set_prop number_or_undefined_def r js_coalesce_def
        is_number_not_nullish)

lemma normalize_unknown_currency_zzz:
  "normalizeCashoutToUSD B ttl now net cache
       (JObj [(''currency'', JStr ''zzz''), (''amount'', JNum (Fin 2)), (''payout'', JNum (Fin 3))])
     = (JObj [(''currency'', JStr ''zzz''), (''amount'', JNum (Fin 0)), (''payout'', JNum (Fin 0)),
              (''amountCrypto'', JNum (Fin 2)), (''payoutCrypto'', JNum (Fin 3))],
        cache, [])"
  by (simp add: normalizeCashoutToUSD_def getUsdRate_def toLowerCase_def lower_char_def
        COINGECKO_IDS_get_def COINGECKO_IDS_def Object_prototype_def native_function_def Let_def
        get_own_def set_prop_def js_or_def js_coalesce_def number_or_undefined_def)

text \<open>
  Claim C4, at the input where the code departs from it. The symbol \<open>constructor\<close> is
  not one of the eight supported symbols, but \<open>COINGECKO_IDS["constructor"]\<close> is the
  inherited \<open>Object\<close> function, which is truthy: the guard \<open>if (!id) return null\<close> does
  not fire and a request is issued for it, whatever the provider answers.
\<close>

theorem getUsdRate_constructor_issues_request:
  "map_of COINGECKO_IDS ''constructor'' = None
   \<and> snd (snd (getUsdRate B ttl now net Map.empty (JStr ''constructor'')))
       = [''function Object() { [native code] }'']"
  by (simp add: getUsdRate_def toLowerCase_def lower_char_def COINGECKO_IDS_get_def
        COINGECKO_IDS_def Object_prototype_def native_function_def Let_def
        split: fetch_result.splits body.splits jsval.splits)

section \<open>Properties of ingestion\<close>

lemma get_own_set_field_other:
  "k \<noteq> fst kv \<Longrightarrow> get_own (set_field omit kv d) k = get_own d k"
  by (simp add: set_field_def get_own_set_prop)

lemma get_own_apply_set_other:
  "k \<notin> fst ` set upd \<Longrightarrow> get_own (apply_set omit upd d) k = get_own d k"
  unfolding apply_set_def
  by (induction upd arbitrary: d) (auto simp add: get_own_set_field_other)

lemma get_own_apply_set_defined:
  "distinct (map fst upd) \<Longrightarrow> (k, v) \<in> set upd \<Longrightarrow> v \<noteq> JUndefined \<Longrightarrow>
     get_own (apply_set omit upd d) k = v"
proof (induction upd arbitrary: d)
  case Nil
  then show ?case by simp
next
  case (Cons kv upd)
  show ?case
  proof (cases "(k, v) = kv")
    case True
    with Cons.prems have "k \<notin> fst ` set upd" by force
    then have "get_own (apply_set omit upd (set_field omit kv d)) k = get_own (set_field omit kv d) k"
      by (rule get_own_apply_set_other)
    also have "\<dots> = v" using True Cons.prems(3) by (auto simp add: set_field_def get_own_set_prop)
    finally show ?thesis by (simp add: apply_set_def)
  next
    case False
    with Cons.prems have "(k, v) \<in> set upd" "distinct (map fst upd)" by auto
    from Cons.IH [OF this(2) this(1) Cons.prems(3)] show ?thesis by (simp add: apply_set_def)
  qed
qed

lemma get_own_apply_set_undefined:
  "distinct (map fst upd) \<Longrightarrow> (k, JUndefined) \<in> set upd \<Longrightarrow>
     get_own (apply_set omit upd d) k = (if omit then get_own d k else JNull)"
proof (induction upd arbitrary: d)
  case Nil
  then show ?case by simp
next
  case (Cons kv upd)
  show ?case
  proof (cases "(k, JUndefined) = kv")
    case True
    with Cons.prems have "k \<notin> fst ` set upd" by force
    then have "get_own (apply_set omit upd (set_field omit kv d)) k = get_own (set_field omit kv d) k"
      by (rule get_own_apply_set_other)
    also have "\<dots> = (if omit then get_own d k else JNull)" using True by (auto simp add: set_field_def get_own_set_prop)
    finally show ?thesis by (simp add: apply_set_def)
  next
    case False
    with Cons.prems have a: "(k, JUndefined) \<in> set upd" "distinct (map fst upd)" by auto
    from a(1) have "k \<in> fst ` set upd" by force
    moreover from Cons.prems(1) have "fst kv \<notin> fst ` set upd" by simp
    ultimately have "k \<noteq> fst kv" by blast
    note a = a this
    from Cons.IH [OF a(2) a(1), of "set_field omit kv d"] a(3) show ?thesis by (simp add: apply_set_def get_own_set_field_other)
  qed
qed

lemma filter_updateOne:
  assumes "''id'' \<notin> fst ` set upd" and "key \<noteq> JUndefined"
  shows "filter (has_id key) (updateOne omit key [(''id'', key)] upd ds) =
           (case filter (has_id key) ds of
              [] \<Rightarrow> [apply_set omit upd [(''id'', key)]]
            | d # rest \<Rightarrow> apply_set omit upd d # rest)"
proof (induction ds)
  case Nil
  have "apply_set omit [(''id'', key)] [(''id'', key)] = [(''id'', key)]"
    using assms(2) by (simp add: apply_set_def set_field_def set_prop_def)
  moreover have "get_own (apply_set omit upd [(''id'', key)]) ''id'' = get_own [(''id'', key)] ''id''"
    using assms(1) by (rule get_own_apply_set_other)
  then have "has_id key (apply_set omit upd [(''id'', key)])"
    by (simp add: has_id_def get_own_def)
  ultimately show ?case by simp
next
  case (Cons d ds)
  show ?case
  proof (cases "get_own d ''id'' = key")
    case True
    then have "has_id key (apply_set omit upd d)"
      using assms(1) by (simp add: has_id_def get_own_apply_set_other)
    with True show ?thesis by (simp add: has_id_def)
  next
    case False
    with Cons show ?thesis by (simp add: has_id_def)
  qed
qed

lemma updateOne_result:
  assumes "''id'' \<notin> fst ` set upd" and "key \<noteq> JUndefined" and "length (filter (has_id key) ds) \<le> 1"
  shows "\<exists>d0. filter (has_id key) (updateOne omit key [(''id'', key)] upd ds) = [apply_set omit upd d0]
           \<and> (d0 = [(''id'', key)] \<and> filter (has_id key) ds = [] \<or> filter (has_id key) ds = [d0])"
  using assms(3) unfolding filter_updateOne [OF assms(1,2)]
  by (cases "filter (has_id key) ds") (auto split: list.splits)

lemma payload_set_keys:
  "distinct (map fst (payload_set B now r)) \<and> ''id'' \<notin> fst ` set (payload_set B now r)"
  by (auto simp add: payload_set_def cashouts_set_def cashout_set_def Let_def split: request.splits sum.splits)

lemma truthy_defined: "truthy v \<Longrightarrow> v \<noteq> JUndefined" by auto

lemma flat_fields_id:
  "flat_fields B b = Inr flat \<Longrightarrow>
     get_own flat ''id'' =
       js_or (js_or (get_prop b ''id'') (get_prop b ''cashoutId'')) (get_prop (get_prop b ''preview'') ''id'')"
  by (auto simp add: flat_fields_def Let_def get_own_def split: sum.splits)

lemma ingest_ok:
  assumes "ingest B omit now r s = (res, s')" and "status res = 200"
  shows "cashouts s' = updateOne omit (cashout_id r) [(''id'', cashout_id r)] (payload_set B now r) (cashouts s)
         \<and> truthy (cashout_id r)"
proof (cases r)
  case (Nested b)
  with assms show ?thesis
    by (auto simp add: ingest_def post_cashouts_def cashout_id_def payload_set_def Let_def js_not_def
          bad_request_def server_error_def split: if_splits sum.splits)
next
  case (Flat b)
  with assms show ?thesis
    by (auto simp add: ingest_def post_cashout_def cashout_id_def payload_set_def Let_def js_not_def
          bad_request_def server_error_def flat_fields_id [symmetric] split: if_splits sum.splits)
qed

lemma is_number_defined: "is_number v \<Longrightarrow> v \<noteq> JUndefined"
  by (cases v) simp_all

lemma payload_set_numbers:
  assumes "ingest B omit now r s = (res, s')" and "status res = 200"
  shows "\<exists>a p. (''amount'', JNum a) \<in> set (payload_set B now r)
             \<and> (''payout'', JNum p) \<in> set (payload_set B now r)
             \<and> (''amountUSD'', number_or_undefined (client_usd r ''amountUSD'')) \<in> set (payload_set B now r)
             \<and> (''payoutUSD'', number_or_undefined (client_usd r ''payoutUSD'')) \<in> set (payload_set B now r)"
proof (cases r)
  case (Nested b)
  with assms show ?thesis
    by (auto simp add: ingest_def post_cashouts_def payload_set_def cashouts_set_def client_usd_def
          Let_def Number_def bad_request_def server_error_def split: if_splits sum.splits)
next
  case (Flat b)
  with assms show ?thesis
    by (auto simp add: ingest_def post_cashout_def payload_set_def flat_fields_def cashout_set_def
          client_usd_def get_own_def Let_def Number_def bad_request_def server_error_def
          split: if_splits sum.splits)
qed

text \<open>What holds of re-ingestion, for both endpoints in any combination and an id that
  is a string (as the schema declares it): two accepted requests that carry the same
  external id, into a store with at most one record of that id, leave exactly one record
  of it. Of the optional USD fields, one for which the second payload carries a number
  holds that number; one for which it carries none keeps what the record held after the
  first request when the store leaves \<open>undefined\<close> out of an update, and is \<open>null\<close> when
  the store writes it.\<close>

lemma reingestion_one_record:
  assumes uniq: "length (filter (has_id (JStr i)) (cashouts s)) \<le> 1"
    and i1: "ingest B omit now1 r1 s = (res1, s1)" "status res1 = 200" "cashout_id r1 = JStr i"
    and i2: "ingest B omit now2 r2 s1 = (res2, s2)" "status res2 = 200" "cashout_id r2 = JStr i"
  shows "\<exists>d1 d. filter (has_id (JStr i)) (cashouts s1) = [d1]
           \<and> filter (has_id (JStr i)) (cashouts s2) = [d]
           \<and> (\<forall>k \<in> {''amountUSD'', ''payoutUSD''}.
                 get_own d k = (if is_number (client_usd r2 k) then client_usd r2 k
                                else if omit then get_own d1 k else JNull))"
proof -
  let ?key = "JStr i"
  note k1 = payload_set_keys [of B now1 r1] and k2 = payload_set_keys [of B now2 r2]
  have kd: "?key \<noteq> JUndefined" by simp
  from ingest_ok [OF i1(1,2)] i1(3)
  have c1: "cashouts s1 = updateOne omit ?key [(''id'', ?key)] (payload_set B now1 r1) (cashouts s)"
    by simp
  from updateOne_result [OF _ kd uniq, of "payload_set B now1 r1" omit] k1 c1
  obtain d1 where d1: "filter (has_id ?key) (cashouts s1) = [d1]" by auto
  then have u1: "length (filter (has_id ?key) (cashouts s1)) \<le> 1" by simp
  from ingest_ok [OF i2(1,2)] i2(3)
  have c2: "cashouts s2 = updateOne omit ?key [(''id'', ?key)] (payload_set B now2 r2) (cashouts s1)"
    by simp
  from updateOne_result [OF _ kd u1, of "payload_set B now2 r2" omit] k2 c2 d1
  have d: "filter (has_id ?key) (cashouts s2) = [apply_set omit (payload_set B now2 r2) d1]"
    by auto
  have set_value: "get_own (apply_set omit (payload_set B now2 r2) d1) k
          = (if v \<noteq> JUndefined then v else if omit then get_own d1 k else JNull)"
    if kv: "(k, v) \<in> set (payload_set B now2 r2)" for k v
  proof (cases "v = JUndefined")
    case True
    with get_own_apply_set_undefined [of "payload_set B now2 r2" k omit d1] k2 kv
    show ?thesis by auto
  next
    case False
    with get_own_apply_set_defined [of "payload_set B now2 r2" k v omit d1] k2 kv
    show ?thesis by auto
  qed
  from payload_set_numbers [OF i2(1,2)]
  have m: "(''amountUSD'', number_or_undefined (client_usd r2 ''amountUSD'')) \<in> set (payload_set B now2 r2)"
       "(''payoutUSD'', number_or_undefined (client_usd r2 ''payoutUSD'')) \<in> set (payload_set B now2 r2)"
    by blast+
  have "get_own (apply_set omit (payload_set B now2 r2) d1) k
          = (if is_number (client_usd r2 k) then client_usd r2 k
             else if omit then get_own d1 k else JNull)"
    if "k \<in> {''amountUSD'', ''payoutUSD''}" for k
    using that set_value [OF m(1)] set_value [OF m(2)]
    by (auto simp add: number_or_undefined_def dest: is_number_defined)
  with d1 d show ?thesis by blast
qed

lemma cashouts_empty_db: "cashouts empty_db = []"
  by (simp add: empty_db_def)

subsection \<open>A second payload without a USD value\<close>

lemmas eval_defs = ingest_def post_cashouts_def cashouts_set_def Let_def js_not_def opt_toLowerCase_def
  toLowerCase_def lower_char_def js_coalesce_def Number_def js_zero_def number_or_undefined_def
  upsert_account_def apply_set_def set_field_def set_prop_def get_own_def

lemma body_first_parts:
  "js_or body_first (JObj []) = body_first"
  "get_prop body_first ''minesCashout'' =
     JObj [(''id'', JStr ''c1''), (''game'', JStr ''Mines''), (''currency'', JStr ''LTC''),
           (''payout'', JNum (Fin 3)), (''amount'', JNum (Fin 2)),
           (''payoutMultiplier'', JNum (Fin (3 / 2))), (''amountMultiplier'', JNum (Fin 1)),
           (''payoutUSD'', JNum (Fin 150)), (''amountUSD'', JNum (Fin 100)),
           (''updatedAt'', JStr ''t1'')]"
  "get_prop body_first ''user'' = JObj [(''id'', JStr ''u1''), (''name'', JStr ''Ann'')]"
  "body_first \<noteq> JUndefined"
  by (simp_all add: body_first_def js_or_def)

lemma body_first_ingested:
  "ingest B omit now1 (Nested body_first) empty_db =
     (\<lparr>status = 200, json = JObj [(''ok'', JBool True)]\<rparr>,
      \<lparr>accounts = [[(''id'', JStr ''u1''), (''createdAt'', JDate now1), (''name'', JStr ''Ann''),
                     (''updatedAt'', JDate now1)]],
       cashouts = [[(''id'', JStr ''c1''), (''accountId'', JStr ''u1''), (''game'', JStr ''mines''),
                    (''currency'', JStr ''ltc''), (''payout'', JNum (Fin 3)), (''amount'', JNum (Fin 2)),
                    (''payoutMultiplier'', JNum (Fin (3 / 2))), (''amountMultiplier'', JNum (Fin 1)),
                    (''payoutUSD'', JNum (Fin 150)), (''amountUSD'', JNum (Fin 100)),
                    (''updatedAt'', JStr ''t1''), (''rawJson'', body_first),
                    (''capturedAt'', JDate now1)]]\<rparr>)"
  by (simp add: eval_defs body_first_parts empty_db_def) (simp add: js_or_def)

lemma body_second_fields:
  "flat_fields B body_second =
     Inr [(''id'', JStr ''c1''), (''accountId'', JStr ''u1''), (''accountName'', JUndefined),
          (''game'', JStr ''mines''), (''currency'', JStr ''btc''), (''payout'', JNum (Fin 7)),
          (''payoutMultiplier'', JNum (Fin (7 / 4))), (''amount'', JNum (Fin 5)),
          (''amountMultiplier'', JNum (Fin 0)), (''updatedAt'', JNull),
          (''payoutUSD'', JNum (Fin 70)), (''amountUSD'', JUndefined), (''rawJson'', body_second)]"
  by (simp add: flat_fields_def body_second_def js_or_def js_coalesce_def Let_def toLowerCase_def lower_char_def
       Number_def js_zero_def number_or_undefined_def)

lemma body_second_truthy: "js_or body_second (JObj []) = body_second" "body_second \<noteq> JUndefined"
  by (simp_all add: js_or_def body_second_def)

lemma body_second_ingested:
  assumes "accounts s = [[(''id'', JStr ''u1''), (''createdAt'', JDate now1), (''name'', JStr ''Ann''),
                          (''updatedAt'', JDate now1)]]"
    and "cashouts s = [d]" and "get_own d ''id'' = JStr ''c1''"
  shows "ingest B omit now2 (Flat body_second) s =
     (\<lparr>status = 200, json = JObj [(''ok'', JBool True), (''id'', JStr ''c1'')]\<rparr>,
      \<lparr>accounts = [[(''id'', JStr ''u1''), (''createdAt'', JDate now1), (''name'', JNull),
                     (''updatedAt'', JDate now2)]],
       cashouts = [apply_set omit (cashout_set now2
                     [(''id'', JStr ''c1''), (''accountId'', JStr ''u1''), (''accountName'', JUndefined),
                      (''game'', JStr ''mines''), (''currency'', JStr ''btc''), (''payout'', JNum (Fin 7)),
                      (''payoutMultiplier'', JNum (Fin (7 / 4))), (''amount'', JNum (Fin 5)),
                      (''amountMultiplier'', JNum (Fin 0)), (''updatedAt'', JNull),
                      (''payoutUSD'', JNum (Fin 70)), (''amountUSD'', JUndefined),
                      (''rawJson'', body_second)]) d]\<rparr>)"
  using assms
  by (simp add: ingest_def post_cashout_def body_second_truthy body_second_fields js_not_def Let_def
        upsert_account_def)
     (simp add: get_own_def apply_set_def set_field_def set_prop_def js_coalesce_def)

lemma body_ids:
  "cashout_id (Nested body_first) = JStr ''c1''" "cashout_id (Flat body_second) = JStr ''c1''"
  "client_usd (Nested body_first) ''amountUSD'' = JNum (Fin 100)"
  "client_usd (Flat body_second) ''amountUSD'' = JUndefined"
  by (simp_all add: cashout_id_def client_usd_def body_first_def body_second_def js_or_def)

text \<open>
  Claim C5, at the input where the code departs from it. A cashout is ingested through
  \<open>POST /api/cashouts\<close> with \<open>amountUSD = 100\<close> (2 ltc), and then again, under the same id,
  through \<open>POST /api/cashout\<close> with a payload that carries 5 btc and no \<open>amountUSD\<close>. The
  handler puts \<open>amountUSD: undefined\<close> into its \<open>$set\<close>, and a store that leaves
  \<open>undefined\<close> out of an update keeps the value of the first payload. Exactly one record
  of the id remains and every other field is the second payload's, but \<open>amountUSD\<close> is
  still 100: the record does not reflect the second payload's values.
\<close>

theorem reingestion_keeps_usd_of_first_payload:
  "cashout_id (Nested body_first) = JStr ''c1'' \<and> cashout_id (Flat body_second) = JStr ''c1''
   \<and> client_usd (Nested body_first) ''amountUSD'' = JNum (Fin 100)
   \<and> client_usd (Flat body_second) ''amountUSD'' = JUndefined
   \<and> status (fst (ingest B True now1 (Nested body_first) empty_db)) = 200
   \<and> status (fst (ingest B True now2 (Flat body_second)
                     (snd (ingest B True now1 (Nested body_first) empty_db)))) = 200
   \<and> cashouts (snd (ingest B True now2 (Flat body_second)
                       (snd (ingest B True now1 (Nested body_first) empty_db))))
       = [[(''id'', JStr ''c1''), (''accountId'', JStr ''u1''), (''game'', JStr ''mines''),
           (''currency'', JStr ''btc''), (''payout'', JNum (Fin 7)), (''amount'', JNum (Fin 5)),
           (''payoutMultiplier'', JNum (Fin (7 / 4))), (''amountMultiplier'', JNum (Fin 0)),
           (''payoutUSD'', JNum (Fin 70)), (''amountUSD'', JNum (Fin 100)),
           (''updatedAt'', JNull), (''rawJson'', body_second), (''capturedAt'', JDate now2)]]"
  by (simp add: body_ids body_first_ingested body_second_ingested [where ?now1.0 = now1] get_own_def)
     (simp add: cashout_set_def get_own_def apply_set_def set_field_def set_prop_def body_second_truthy)

text \<open>A store that writes \<open>undefined\<close> as \<open>null\<close> clears the field, and the record is the
  second payload's throughout.\<close>

lemma reingestion_writing_null:
  "cashouts (snd (ingest B False now2 (Flat body_second)
                    (snd (ingest B False now1 (Nested body_first) empty_db))))
     = [[(''id'', JStr ''c1''), (''accountId'', JStr ''u1''), (''game'', JStr ''mines''),
         (''currency'', JStr ''btc''), (''payout'', JNum (Fin 7)), (''amount'', JNum (Fin 5)),
         (''payoutMultiplier'', JNum (Fin (7 / 4))), (''amountMultiplier'', JNum (Fin 0)),
         (''payoutUSD'', JNum (Fin 70)), (''amountUSD'', JNull),
         (''updatedAt'', JNull), (''rawJson'', body_second), (''capturedAt'', JDate now2)]]"
  by (simp add: body_first_ingested body_second_ingested [where ?now1.0 = now1] get_own_def)
     (simp add: cashout_set_def get_own_def apply_set_def set_field_def set_prop_def body_second_truthy)

text \<open>The value that stayed is the one a reader gets: the normalizer prefers a stored USD
  value, so the record of 5 btc is reported with the 100 USD of the 2 ltc before it, and
  no rate is asked for.\<close>

lemma stale_usd_is_reported:
  "\<exists>out. normalizeCashoutToUSD B ttl now net cache
            (JObj [(''id'', JStr ''c1''), (''accountId'', JStr ''u1''), (''game'', JStr ''mines''),
                   (''currency'', JStr ''btc''), (''payout'', JNum (Fin 7)), (''amount'', JNum (Fin 5)),
                   (''payoutMultiplier'', JNum (Fin (7 / 4))), (''amountMultiplier'', JNum (Fin 0)),
                   (''payoutUSD'', JNum (Fin 70)), (''amountUSD'', JNum (Fin 100)),
                   (''updatedAt'', JNull), (''rawJson'', body_second), (''capturedAt'', JDate now2)])
          = (JObj out, cache, [])
        \<and> get_own out ''amount'' = JNum (Fin 100) \<and> get_own out ''payout'' = JNum (Fin 70)"
  by (rule normalize_stored_object) (simp_all add: get_own_def)

section \<open>Validation\<close>

text \<open>A request without an external cashout id (or account id) writes nothing. The nested
  handler answers 400; the flattened handler answers 400 when its record can be built.\<close>

lemma post_cashouts_validation:
  assumes "js_not (cashout_id (Nested b)) \<or> js_not (get_prop (get_prop (js_or b (JObj [])) ''user'') ''id'')"
  shows "post_cashouts B omit now b s = (bad_request ''missing minesCashout.id or user.id'', s)"
  using assms by (auto simp add: post_cashouts_def cashout_id_def Let_def)

lemma post_cashout_validation:
  assumes "flat_fields B (js_or b (JObj [])) = Inr flat"
    and "js_not (get_own flat ''id'') \<or> js_not (get_own flat ''accountId'')"
  shows "post_cashout B omit now b s = (bad_request ''missing id or accountId'', s)"
  using assms by (auto simp add: post_cashout_def Let_def)

lemma post_cashout_no_id_no_write:
  assumes "js_not (cashout_id (Flat b))"
  shows "snd (post_cashout B omit now b s) = s \<and> status (fst (post_cashout B omit now b s)) \<in> {400, 500}"
  using assms
  by (auto simp add: post_cashout_def cashout_id_def Let_def bad_request_def server_error_def
        flat_fields_id [symmetric] split: sum.splits)

text \<open>
  Claim C7, at the input where the code departs from it. The flattened handler builds
  its record before it validates: for the body \<open>{ "game": 5 }\<close>, which carries neither a
  cashout id nor an account id, \<open>(5).toLowerCase\<close> is not a function, the TypeError is
  caught, and the caller gets the generic server error (500) in place of the validation
  error. Nothing is written.
\<close>

theorem post_cashout_type_error_before_validation:
  "cashout_id (Flat (JObj [(''game'', JNum (Fin 5))])) = JUndefined
   \<and> post_cashout B omit now (JObj [(''game'', JNum (Fin 5))]) s = (server_error, s)
   \<and> status server_error = 500 \<and> status (bad_request msg) = 400"
  by (simp add: post_cashout_def cashout_id_def flat_fields_def js_or_def Let_def server_error_def
        bad_request_def)

section \<open>What a stored record holds\<close>

lemma body_negative_usd_parts:
  "js_or body_negative_usd (JObj []) = body_negative_usd"
  "get_prop body_negative_usd ''minesCashout'' = mc_negative_usd"
  "get_prop body_negative_usd ''user'' = JObj [(''id'', JStr ''u1'')]"
  "truthy body_negative_usd"
  "body_negative_usd \<noteq> JUndefined"
  by (simp_all add: body_negative_usd_def js_or_def mc_negative_usd_def)

lemma negative_usd_set:
  "cashouts_set plain_builtins 1 body_negative_usd =
     Inr [(''accountId'', JStr ''u1''), (''game'', JNull), (''currency'', JStr ''ltc''),
          (''payout'', JNum (Fin 3)), (''amount'', JNum (Fin 2)), (''payoutMultiplier'', JNum (Fin 0)),
          (''amountMultiplier'', JNum (Fin 0)), (''payoutUSD'', JUndefined),
          (''amountUSD'', JNum (Fin (- 5))), (''updatedAt'', JNull),
          (''rawJson'', body_negative_usd), (''capturedAt'', JDate 1)]"
  by (simp add: cashouts_set_def body_negative_usd_parts Let_def
        mc_negative_usd_def opt_toLowerCase_def toLowerCase_def lower_char_def js_coalesce_def
        Number_def js_or_def js_zero_def number_or_undefined_def)

lemma negative_usd_ingested:
  "ingest plain_builtins omit 1 (Nested body_negative_usd) empty_db =
     (\<lparr>status = 200, json = JObj [(''ok'', JBool True)]\<rparr>,
      \<lparr>accounts = [[(''id'', JStr ''u1''), (''createdAt'', JDate 1), (''name'', JNull), (''updatedAt'', JDate 1)]],
       cashouts = [[(''id'', JStr ''c9''), (''accountId'', JStr ''u1''), (''game'', JNull),
                    (''currency'', JStr ''ltc''), (''payout'', JNum (Fin 3)), (''amount'', JNum (Fin 2)),
                    (''payoutMultiplier'', JNum (Fin 0)), (''amountMultiplier'', JNum (Fin 0))]
                   @ (if omit then [] else [(''payoutUSD'', JNull)])
                   @ [(''amountUSD'', JNum (Fin (- 5))), (''updatedAt'', JNull),
                      (''rawJson'', body_negative_usd), (''capturedAt'', JDate 1)]]\<rparr>)"
  by (simp add: ingest_def post_cashouts_def body_negative_usd_parts negative_usd_set Let_def
        mc_negative_usd_def js_not_def empty_db_def upsert_account_def apply_set_def
        set_field_def set_prop_def js_coalesce_def)

lemma list_all_updateOne:
  assumes "list_all P ds" and "\<And>d. P (apply_set omit upd d)"
  shows "list_all P (updateOne omit key ins upd ds)"
  using assms(1) by (induction ds) (auto simp add: assms(2))

lemma updateOne_member:
  assumes "''id'' \<notin> fst ` set upd" and "key \<noteq> JUndefined"
  shows "\<exists>d0. apply_set omit upd d0 \<in> set (updateOne omit key [(''id'', key)] upd ds)
              \<and> has_id key (apply_set omit upd d0)"
proof -
  from filter_updateOne [OF assms, of omit ds]
  obtain d0 rest where "filter (has_id key) (updateOne omit key [(''id'', key)] upd ds) = apply_set omit upd d0 # rest"
    by (cases "filter (has_id key) ds") auto
  then have "apply_set omit upd d0 \<in> set (filter (has_id key) (updateOne omit key [(''id'', key)] upd ds))"
    by simp
  then show ?thesis by auto
qed

lemma ingest_not_ok:
  assumes "ingest B omit now r s = (res, s')" and "status res \<noteq> 200"
  shows "cashouts s' = cashouts s"
  using assms
  by (cases r)
     (auto simp add: ingest_def post_cashouts_def post_cashout_def Let_def split: if_splits sum.splits)

text \<open>The handlers keep the ids of the stored cashouts unique, so the store of the
  idempotence property holds at most one record of an id whenever it was filled by
  ingestions alone.\<close>

lemma filter_updateOne_other:
  assumes "''id'' \<notin> fst ` set upd" and "key \<noteq> JUndefined" and "other \<noteq> key"
  shows "filter (has_id other) (updateOne omit key [(''id'', key)] upd ds) = filter (has_id other) ds"
proof (induction ds)
  case Nil
  have "apply_set omit [(''id'', key)] [(''id'', key)] = [(''id'', key)]"
    using assms(2) by (simp add: apply_set_def set_field_def set_prop_def)
  moreover have "get_own (apply_set omit upd [(''id'', key)]) ''id'' = get_own [(''id'', key)] ''id''"
    using assms(1) by (rule get_own_apply_set_other)
  then have "\<not> has_id other (apply_set omit upd [(''id'', key)])"
    using assms(3) by (simp add: has_id_def get_own_def)
  ultimately show ?case by simp
next
  case (Cons d ds)
  show ?case
  proof (cases "get_own d ''id'' = key")
    case True
    then have "get_own (apply_set omit upd d) ''id'' = key"
      using assms(1) by (simp add: get_own_apply_set_other)
    with True assms(3) show ?thesis by (simp add: has_id_def)
  next
    case False
    with Cons show ?thesis by simp
  qed
qed

lemma ingest_keeps_ids_unique:
  assumes u: "\<forall>key. length (filter (has_id key) (cashouts s)) \<le> 1"
    and i: "ingest B omit now r s = (res, s')"
  shows "\<forall>key. length (filter (has_id key) (cashouts s')) \<le> 1"
proof (cases "status res = 200")
  case False
  with ingest_not_ok [OF i] u show ?thesis by simp
next
  case True
  from ingest_ok [OF i True]
  have c: "cashouts s' = updateOne omit (cashout_id r) [(''id'', cashout_id r)] (payload_set B now r) (cashouts s)"
    and t: "truthy (cashout_id r)" by simp_all
  from t have kd: "cashout_id r \<noteq> JUndefined" by auto
  note k = payload_set_keys [of B now r]
  show ?thesis
  proof
    fix key
    show "length (filter (has_id key) (cashouts s')) \<le> 1"
    proof (cases "key = cashout_id r")
      case True
      from u have "length (filter (has_id (cashout_id r)) (cashouts s)) \<le> 1" by blast
      from updateOne_result [OF _ kd this, of "payload_set B now r" omit] k c True
      show ?thesis by auto
    next
      case False
      from filter_updateOne_other [OF _ kd False, of "payload_set B now r" omit "cashouts s"] k c u
      show ?thesis by simp
    qed
  qed
qed

text \<open>
  Claim C9, as amended. Every ingestion, through either endpoint and whatever it answers,
  keeps the crypto \<open>amount\<close> and \<open>payout\<close> of every stored record present and of type
  number. A successful one leaves a record of the payload's id whose \<open>amountUSD\<close> and
  \<open>payoutUSD\<close> are the numbers the client sent, when it sent numbers: the handlers test
  the type only, so a negative number is stored as it came.
\<close>

theorem ingest_keeps_crypto_present_and_usd_as_sent:
  assumes inv: "list_all crypto_present (cashouts s)" and i: "ingest B omit now r s = (res, s')"
  shows "list_all crypto_present (cashouts s')
       \<and> (status res = 200 \<longrightarrow>
            (\<exists>d \<in> set (cashouts s'). has_id (cashout_id r) d
               \<and> (is_number (client_usd r ''amountUSD'') \<longrightarrow> get_own d ''amountUSD'' = client_usd r ''amountUSD'')
               \<and> (is_number (client_usd r ''payoutUSD'') \<longrightarrow> get_own d ''payoutUSD'' = client_usd r ''payoutUSD'')))"
proof (cases "status res = 200")
  case False
  with ingest_not_ok [OF i] inv show ?thesis by simp
next
  case True
  let ?upd = "payload_set B now r" and ?key = "cashout_id r"
  from ingest_ok [OF i True]
  have c: "cashouts s' = updateOne omit ?key [(''id'', ?key)] ?upd (cashouts s)" and t: "truthy ?key"
    by simp_all
  from payload_set_numbers [OF i True] obtain a p where
    m: "(''amount'', JNum a) \<in> set ?upd" "(''payout'', JNum p) \<in> set ?upd"
       "(''amountUSD'', number_or_undefined (client_usd r ''amountUSD'')) \<in> set ?upd"
       "(''payoutUSD'', number_or_undefined (client_usd r ''payoutUSD'')) \<in> set ?upd"
    by blast
  note k = payload_set_keys [of B now r]
  have P: "crypto_present (apply_set omit ?upd d)" for d
    using get_own_apply_set_defined [of ?upd "''amount''" "JNum a" omit d]
          get_own_apply_set_defined [of ?upd "''payout''" "JNum p" omit d] k m
    by (simp add: crypto_present_def)
  have 1: "list_all crypto_present (cashouts s')"
    unfolding c using inv P by (rule list_all_updateOne)
  from t have "?key \<noteq> JUndefined" by auto
  from updateOne_member [OF _ this, of ?upd omit "cashouts s"] k c
  obtain d0 where d0: "apply_set omit ?upd d0 \<in> set (cashouts s')" "has_id ?key (apply_set omit ?upd d0)"
    by auto
  have "get_own (apply_set omit ?upd d0) ''amountUSD'' = client_usd r ''amountUSD''"
    if "is_number (client_usd r ''amountUSD'')"
    using get_own_apply_set_defined [of ?upd "''amountUSD''" "client_usd r ''amountUSD''" omit d0] k m(3) that
    by (auto simp add: number_or_undefined_def dest: is_number_defined)
  moreover have "get_own (apply_set omit ?upd d0) ''payoutUSD'' = client_usd r ''payoutUSD''"
    if "is_number (client_usd r ''payoutUSD'')"
    using get_own_apply_set_defined [of ?upd "''payoutUSD''" "client_usd r ''payoutUSD''" omit d0] k m(4) that
    by (auto simp add: number_or_undefined_def dest: is_number_defined)
  ultimately show ?thesis using 1 d0 by blast
qed

lemma negative_usd_client:
  "cashout_id (Nested body_negative_usd) = JStr ''c9''"
  "client_usd (Nested body_negative_usd) ''amountUSD'' = JNum (Fin (- 5))"
  "client_usd (Nested body_negative_usd) ''payoutUSD'' = JUndefined"
  by (simp_all add: cashout_id_def client_usd_def body_negative_usd_parts mc_negative_usd_def)

theorem ingest_keeps_crypto_present_and_usd_as_sent_witness:
  "list_all crypto_present
     (cashouts (snd (ingest plain_builtins True 1 (Nested body_negative_usd) empty_db)))
   \<and> (\<exists>d \<in> set (cashouts (snd (ingest plain_builtins True 1 (Nested body_negative_usd) empty_db))).
         has_id (JStr ''c9'') d \<and> get_own d ''amountUSD'' = JNum (Fin (- 5)))"
  using ingest_keeps_crypto_present_and_usd_as_sent
          [of empty_db plain_builtins True 1 "Nested body_negative_usd"
              "fst (ingest plain_builtins True 1 (Nested body_negative_usd) empty_db)"
              "snd (ingest plain_builtins True 1 (Nested body_negative_usd) empty_db)"]
  by (simp add: cashouts_empty_db negative_usd_client)
     (simp add: negative_usd_ingested)

text \<open>The claim as stated fails: the empty store satisfies "USD fields are never negative",
  and one accepted ingestion of a payload with \<open>amountUSD = -5\<close> breaks it.\<close>

theorem ingest_stores_negative_usd:
  "list_all usd_not_negative (cashouts empty_db)
   \<and> status (fst (ingest plain_builtins True 1 (Nested body_negative_usd) empty_db)) = 200
   \<and> \<not> list_all usd_not_negative
          (cashouts (snd (ingest plain_builtins True 1 (Nested body_negative_usd) empty_db)))
   \<and> \<not> list_all usd_not_negative
          (cashouts (snd (ingest plain_builtins False 1 (Nested body_negative_usd) empty_db)))"
  by (simp add: negative_usd_ingested usd_not_negative_def get_own_def cashouts_empty_db)

section \<open>The frame of the normalizer\<close>






section \<open>The totals of the account summary\<close>

lemma sum_field_Nil: "sum_field B k [] = Fin 0" by (simp add: sum_field_def)

lemma js_or_coalesce_null: "js_or (js_coalesce v JNull) x = js_or v x"
  by (cases v) (simp_all add: js_or_def js_coalesce_def)

lemma aggregate_fields:
  assumes "matching account cs = ds" and "ds \<noteq> []"
  shows "js_not (aggregate B account cs) = False"
    "get_prop (aggregate B account cs) ''totalBets'' = JNum (Fin (real (length ds)))"
    "get_prop (aggregate B account cs) ''maxMult'' = max_field ''payoutMultiplier'' ds"
    "get_prop (aggregate B account cs) ''totalPayoutUSD'' = JNum (sum_field B ''payoutUSD'' ds)"
    "get_prop (aggregate B account cs) ''totalAmountUSD'' = JNum (sum_field B ''amountUSD'' ds)"
    "get_prop (aggregate B account cs) ''totalPayoutCrypto'' = JNum (sum_field B ''payout'' ds)"
    "get_prop (aggregate B account cs) ''totalAmountCrypto'' = JNum (sum_field B ''amount'' ds)"
    "get_prop (aggregate B account cs) ''lastCurrency'' = js_coalesce (get_own (last ds) ''currency'') JNull"
  using assms
  by (simp_all add: aggregate_def Let_def js_not_def)

lemma summary_totals_no_records:
  assumes "matching account cs = []"
    and "getUsdRate B ttl now net cache (JStr ''ltc'') = (JNum r, cache', reqs)"
  shows "summary_totals B ttl now net cache cs account =
     (\<lparr>totalBets = js_zero, maxMult = js_zero,
       totalPayout = round2 B (js_mul B (Fin 0) r), totalAmountUSD = round2 B (js_mul B (Fin 0) r)\<rparr>,
      cache', reqs)"
  using assms
  by (simp add: summary_totals_def aggregate_def Let_def js_not_def js_or_def js_zero_def)

lemma or_zero_cases:
  "x \<in> {NaN, Fin 0} \<Longrightarrow> js_or (JNum x) (JNum (Fin 0)) = JNum (Fin 0)"
  "x \<notin> {NaN, Fin 0} \<Longrightarrow> js_or (JNum x) (JNum (Fin 0)) = JNum x"
  "ToNumber B (js_or (JNum x) (JNum (Fin 0))) = (if x = NaN then Fin 0 else x)"
  by (cases x; auto simp add: js_or_def)+

lemma summary_totals_fallback:
  assumes m: "matching account cs = ds" "ds \<noteq> []"
    and rate: "getUsdRate B ttl now net cache (js_or (get_own (last ds) ''currency'') (JStr ''ltc''))
                 = (JNum r, cache', reqs)"
    and z: "sum_field B ''payoutUSD'' ds \<in> {NaN, Fin 0} \<or> sum_field B ''amountUSD'' ds \<in> {NaN, Fin 0}"
  shows "summary_totals B ttl now net cache cs account =
     (\<lparr>totalBets = JNum (Fin (real (length ds))),
       maxMult = js_or (max_field ''payoutMultiplier'' ds) js_zero,
       totalPayout =
         round2 B (if sum_field B ''payoutUSD'' ds \<in> {NaN, Fin 0}
                   then js_mul B (if sum_field B ''payout'' ds = NaN then Fin 0
                                  else sum_field B ''payout'' ds) r
                   else sum_field B ''payoutUSD'' ds),
       totalAmountUSD =
         round2 B (if sum_field B ''amountUSD'' ds \<in> {NaN, Fin 0}
                   then js_mul B (if sum_field B ''amount'' ds = NaN then Fin 0
                                  else sum_field B ''amount'' ds) r
                   else sum_field B ''amountUSD'' ds)\<rparr>, cache', reqs)"
proof -
  note f = aggregate_fields [OF m]
  have len: "js_or (JNum (Fin (real (length ds)))) (JNum (Fin 0)) = JNum (Fin (real (length ds)))"
    using m(2) by (simp add: js_or_def)
  consider (both) "sum_field B ''payoutUSD'' ds \<in> {NaN, Fin 0}" "sum_field B ''amountUSD'' ds \<in> {NaN, Fin 0}"
    | (payout) "sum_field B ''payoutUSD'' ds \<in> {NaN, Fin 0}" "sum_field B ''amountUSD'' ds \<notin> {NaN, Fin 0}"
    | (amount) "sum_field B ''payoutUSD'' ds \<notin> {NaN, Fin 0}" "sum_field B ''amountUSD'' ds \<in> {NaN, Fin 0}"
    using z by blast
  then show ?thesis
  proof cases
    case both
    note o = or_zero_cases(1) [OF both(1)] or_zero_cases(1) [OF both(2)]
    show ?thesis
      unfolding summary_totals_def js_zero_def
      using both
      by (simp add: Let_def f rate len o or_zero_cases(3) js_or_coalesce_null del: get_prop.simps)
  next
    case payout
    note o = or_zero_cases(1) [OF payout(1)] or_zero_cases(2) [OF payout(2)]
    show ?thesis
      unfolding summary_totals_def js_zero_def
      using payout
      by (simp add: Let_def f rate len o or_zero_cases(3) js_or_coalesce_null del: get_prop.simps)
  next
    case amount
    note o = or_zero_cases(2) [OF amount(1)] or_zero_cases(1) [OF amount(2)]
    show ?thesis
      unfolding summary_totals_def js_zero_def
      using amount
      by (simp add: Let_def f rate len o or_zero_cases(3) js_or_coalesce_null del: get_prop.simps)
  qed
qed

lemma summary_totals_no_rate:
  assumes m: "matching account cs = ds" "ds \<noteq> []"
    and rate: "getUsdRate B ttl now net cache (js_or (get_own (last ds) ''currency'') (JStr ''ltc''))
                 = (JNull, cache', reqs)"
    and z: "sum_field B ''payoutUSD'' ds \<in> {NaN, Fin 0} \<or> sum_field B ''amountUSD'' ds \<in> {NaN, Fin 0}"
  shows "summary_totals B ttl now net cache cs account =
     (\<lparr>totalBets = JNum (Fin (real (length ds))),
       maxMult = js_or (max_field ''payoutMultiplier'' ds) js_zero,
       totalPayout = round2 B (if sum_field B ''payoutUSD'' ds = NaN then Fin 0
                               else sum_field B ''payoutUSD'' ds),
       totalAmountUSD = round2 B (if sum_field B ''amountUSD'' ds = NaN then Fin 0
                                  else sum_field B ''amountUSD'' ds)\<rparr>, cache', reqs)"
proof -
  note f = aggregate_fields [OF m]
  have len: "js_or (JNum (Fin (real (length ds)))) (JNum (Fin 0)) = JNum (Fin (real (length ds)))"
    using m(2) by (simp add: js_or_def)
  have c: "js_or (JNum (sum_field B ''payoutUSD'' ds)) (JNum (Fin 0)) = JNum (Fin 0)
           \<or> js_or (JNum (sum_field B ''amountUSD'' ds)) (JNum (Fin 0)) = JNum (Fin 0)"
    using z or_zero_cases(1) by blast
  then show ?thesis
    unfolding summary_totals_def js_zero_def
    by (simp add: Let_def f rate len or_zero_cases(3) js_or_coalesce_null del: get_prop.simps)
qed

lemma summary_totals_stored:
  assumes m: "matching account cs = ds" "ds \<noteq> []"
    and z: "sum_field B ''payoutUSD'' ds \<notin> {NaN, Fin 0}" "sum_field B ''amountUSD'' ds \<notin> {NaN, Fin 0}"
  shows "summary_totals B ttl now net cache cs account =
     (\<lparr>totalBets = JNum (Fin (real (length ds))),
       maxMult = js_or (max_field ''payoutMultiplier'' ds) js_zero,
       totalPayout = round2 B (sum_field B ''payoutUSD'' ds),
       totalAmountUSD = round2 B (sum_field B ''amountUSD'' ds)\<rparr>, cache, [])"
proof -
  note f = aggregate_fields [OF m]
  have len: "js_or (JNum (Fin (real (length ds)))) (JNum (Fin 0)) = JNum (Fin (real (length ds)))"
    using m(2) by (simp add: js_or_def)
  note o = or_zero_cases(2) [OF z(1)] or_zero_cases(2) [OF z(2)]
  show ?thesis
    unfolding summary_totals_def js_zero_def
    using z
    by (simp add: Let_def f len o js_or_coalesce_null del: get_prop.simps)
qed

subsection \<open>Rounding for display\<close>

text \<open>\<open>Math.round(x * 100) / 100\<close> rounds what the double product \<open>x * 100\<close> is, not the
  exact one. Where that product is rounded up to a half, the total goes up by a cent:
  for the double nearest to 0.015, which lies below it, the double product is 1.5 and
  the result 0.02. Where no double arithmetic rounds, the result is the multiple of a
  hundredth nearest to \<open>x\<close>.\<close>

lemma round2_of_double_product:
  "round_double B (x * 100) = y \<Longrightarrow>
     round2 B (Fin x) = Fin (round_double B (real_of_int \<lfloor>y + 1 / 2\<rfloor> / 100))"
  by (simp add: round2_def)

lemma round2_half_cent:
  assumes "round_double B (x * 100) = 3 / 2"
  shows "round2 B (Fin x) = Fin (round_double B (2 / 100))"
proof -
  have "\<lfloor>(3::real) / 2 + 1 / 2\<rfloor> = 2" by simp
  with round2_of_double_product [OF assms] show ?thesis by simp
qed

lemma round2_plain: "round2 plain_builtins (Fin x) = Fin (real_of_int \<lfloor>x * 100 + 1 / 2\<rfloor> / 100)"
  by (simp add: round2_def plain_arithmetic)

text \<open>For 129/512 = 0.251953125 every step is exact in doubles: the product with 100 is
  25.1953125, \<open>Math.round\<close> makes it 25, and the quotient is 0.25.\<close>

lemma round2_two_decimals: "round2 plain_builtins (Fin (129 / 512)) = Fin (1 / 4)"
proof -
  have "\<lfloor>(129::real) / 512 * 100 + 1 / 2\<rfloor> = 25" by linarith
  then show ?thesis by (simp add: round2_plain)
qed

subsection \<open>The fallback\<close>

text \<open>What holds of the fallback. Let \<open>ds\<close> be the records of the account, and let the
  rate fetcher yield a rate \<open>r\<close> for the currency that the aggregation reports as the
  last one (\<open>ltc\<close> when there is no record or that currency is falsy). Then a total whose
  aggregated stored USD sum is zero (as it is when there are no records) is the
  aggregated crypto sum times \<open>r\<close>, from that one call of the rate fetcher; a stored USD
  sum that is not zero is kept; and each total goes through \<open>Math.round(x * 100) / 100\<close>.\<close>

lemma summary_fallback_one_rate:
  assumes m: "matching account cs = ds"
    and rate: "getUsdRate B ttl now net cache
                 (js_or (get_prop (aggregate B account cs) ''lastCurrency'') (JStr ''ltc''))
               = (JNum r, cache', reqs)"
  shows "(sum_field B ''payoutUSD'' ds = Fin 0 \<longrightarrow>
            totalPayout (fst (summary_totals B ttl now net cache cs account))
              = round2 B (js_mul B (if sum_field B ''payout'' ds = NaN then Fin 0
                                    else sum_field B ''payout'' ds) r))
       \<and> (sum_field B ''amountUSD'' ds = Fin 0 \<longrightarrow>
            totalAmountUSD (fst (summary_totals B ttl now net cache cs account))
              = round2 B (js_mul B (if sum_field B ''amount'' ds = NaN then Fin 0
                                    else sum_field B ''amount'' ds) r))
       \<and> (sum_field B ''payoutUSD'' ds = Fin 0 \<or> sum_field B ''amountUSD'' ds = Fin 0 \<longrightarrow>
            snd (summary_totals B ttl now net cache cs account) = (cache', reqs))
       \<and> (sum_field B ''payoutUSD'' ds \<notin> {NaN, Fin 0} \<longrightarrow>
            totalPayout (fst (summary_totals B ttl now net cache cs account))
              = round2 B (sum_field B ''payoutUSD'' ds))
       \<and> (sum_field B ''amountUSD'' ds \<notin> {NaN, Fin 0} \<longrightarrow>
            totalAmountUSD (fst (summary_totals B ttl now net cache cs account))
              = round2 B (sum_field B ''amountUSD'' ds))"
proof (cases "ds = []")
  case True
  with m have "aggregate B account cs = JUndefined" by (simp add: aggregate_def)
  with rate have "getUsdRate B ttl now net cache (JStr ''ltc'') = (JNum r, cache', reqs)"
    by (simp add: js_or_def)
  with True m have "summary_totals B ttl now net cache cs account =
     (\<lparr>totalBets = js_zero, maxMult = js_zero,
       totalPayout = round2 B (js_mul B (Fin 0) r), totalAmountUSD = round2 B (js_mul B (Fin 0) r)\<rparr>,
      cache', reqs)"
    by (intro summary_totals_no_records) simp_all
  with True show ?thesis by (simp add: sum_field_Nil)
next
  case False
  from rate have rate': "getUsdRate B ttl now net cache (js_or (get_own (last ds) ''currency'') (JStr ''ltc''))
                 = (JNum r, cache', reqs)"
    unfolding aggregate_fields(8) [OF m False] js_or_coalesce_null .
  show ?thesis
  proof (cases "sum_field B ''payoutUSD'' ds \<in> {NaN, Fin 0} \<or> sum_field B ''amountUSD'' ds \<in> {NaN, Fin 0}")
    case True
    from summary_totals_fallback [OF m False rate' True] show ?thesis by simp
  next
    case False
    then have z: "sum_field B ''payoutUSD'' ds \<notin> {NaN, Fin 0}" "sum_field B ''amountUSD'' ds \<notin> {NaN, Fin 0}"
      by simp_all
    from summary_totals_stored [OF m \<open>ds \<noteq> []\<close> z, of ttl now net cache] z show ?thesis by simp
  qed
qed

text \<open>The example of the specification: three records with crypto payouts 1, 2 and 3 and
  no stored USD, at a rate of 10, give a total payout of 60.\<close>

lemma store_three_facts:
  "matching ''u1'' store_three = store_three"
  "sum_field plain_builtins ''payoutUSD'' store_three = Fin 0"
  "sum_field plain_builtins ''amountUSD'' store_three = Fin 0"
  "sum_field plain_builtins ''payout'' store_three = Fin 6"
  "sum_field plain_builtins ''amount'' store_three = Fin 0"
  "js_or (get_own (last store_three) ''currency'') (JStr ''ltc'') = JStr ''ltc''"
  "store_three \<noteq> []"
  by (simp_all add: matching_def sum_field_def store_three_def stored_def get_own_def js_or_def
        plain_arithmetic)

lemma rate_ltc_10: "getUsdRate plain_builtins (env_PRICE_TTL_MS None) 4 (quoting 10) Map.empty (JStr ''ltc'')
   = (JNum (Fin 10), [''ltc'' \<mapsto> (Fin 10, 4)], [''litecoin''])"
  by (simp add: getUsdRate_def toLowerCase_def lower_char_def COINGECKO_IDS_get_def COINGECKO_IDS_def quoting_def)

lemma summary_three_payouts:
  "summary_totals plain_builtins (env_PRICE_TTL_MS None) 4 (quoting 10) Map.empty store_three ''u1''
     = (\<lparr>totalBets = JNum (Fin 3), maxMult = JNum (Fin 0), totalPayout = Fin 60, totalAmountUSD = Fin 0\<rparr>,
        [''ltc'' \<mapsto> (Fin 10, 4)], [''litecoin''])"
  using summary_totals_fallback [of "''u1''" store_three store_three plain_builtins
          "env_PRICE_TTL_MS None" 4 "quoting 10" Map.empty "Fin 10" "[''ltc'' \<mapsto> (Fin 10, 4)]" "[''litecoin'']"]
  by (simp add: store_three_facts rate_ltc_10 round2_plain plain_arithmetic)
     (simp add: store_three_def stored_def max_field_def get_own_def js_or_def js_zero_def)

subsection \<open>The record whose currency is taken\<close>

lemma body_ltc_parts:
  "js_or body_ltc (JObj []) = body_ltc"
  "get_prop body_ltc ''minesCashout'' = JObj [(''id'', JStr ''c1''), (''currency'', JStr ''ltc''), (''payout'', JNum (Fin 1))]"
  "get_prop body_ltc ''user'' = JObj [(''id'', JStr ''u1'')]"
  "body_ltc \<noteq> JUndefined"
  by (simp_all add: body_ltc_def js_or_def)

lemma body_btc_parts:
  "js_or body_btc (JObj []) = body_btc"
  "get_prop body_btc ''minesCashout'' = JObj [(''id'', JStr ''c2''), (''currency'', JStr ''btc''), (''payout'', JNum (Fin 2))]"
  "get_prop body_btc ''user'' = JObj [(''id'', JStr ''u1'')]"
  "body_btc \<noteq> JUndefined"
  by (simp_all add: body_btc_def js_or_def)

lemma ltc_ingested: "cashouts (snd (ingest B True 1 (Nested body_ltc) empty_db)) = [stored ''c1'' ''ltc'' 1 body_ltc 1]"
  by (simp add: eval_defs body_ltc_parts empty_db_def stored_def) (simp add: js_or_def)

lemma btc_ingested: "cashouts s = [stored ''c1'' ''ltc'' 1 body_ltc 1] \<Longrightarrow>
   cashouts (snd (ingest B True 2 (Nested body_btc) s)) = [stored ''c1'' ''ltc'' 1 body_ltc 1, stored ''c2'' ''btc'' 2 body_btc 2]"
  by (simp add: eval_defs body_btc_parts stored_def) (simp add: js_or_def)

lemma ltc_reingested: "cashouts s = [stored ''c1'' ''ltc'' 1 body_ltc 1, stored ''c2'' ''btc'' 2 body_btc 2] \<Longrightarrow>
   cashouts (snd (ingest B True 3 (Nested body_ltc) s)) = [stored ''c1'' ''ltc'' 1 body_ltc 3, stored ''c2'' ''btc'' 2 body_btc 2]"
  by (simp add: eval_defs body_ltc_parts stored_def) (simp add: js_or_def)

lemma reingested_reachable:
  "cashouts (snd (ingest B True 3 (Nested body_ltc)
      (snd (ingest B True 2 (Nested body_btc)
         (snd (ingest B True 1 (Nested body_ltc) empty_db)))))) = store_reingested"
  unfolding store_reingested_def by (intro ltc_reingested btc_ingested ltc_ingested)

lemma matching_reingested: "matching ''u1'' store_reingested = store_reingested"
  by (simp add: matching_def store_reingested_def stored_def get_own_def)

lemma latest_reingested:
  "map_option (\<lambda>d. get_own d ''currency'') (most_recently_captured store_reingested) = Some (JStr ''ltc'')"
  by (simp add: most_recently_captured_def store_reingested_def captured_time_def stored_def get_own_def)

lemma COINGECKO_IDS_get_btc: "COINGECKO_IDS_get ''btc'' = Some ''bitcoin''"
  by (simp add: COINGECKO_IDS_get_def COINGECKO_IDS_def)

lemma toLowerCase_btc: "toLowerCase ''btc'' = ''btc''"
  by (simp add: toLowerCase_def lower_char_def)

lemma rate_btc: "getUsdRate B (env_PRICE_TTL_MS None) 4 quoting_coins Map.empty (JStr ''btc'')
   = (JNum (Fin 1000), [''btc'' \<mapsto> (Fin 1000, 4)], [''bitcoin''])"
  by (simp add: getUsdRate_def toLowerCase_btc COINGECKO_IDS_get_btc quoting_coins_def quoting_def
        price_ttl_default)

lemma rate_ltc: "getUsdRate B (env_PRICE_TTL_MS None) 4 quoting_coins Map.empty (JStr ''ltc'')
   = (JNum (Fin 10), [''ltc'' \<mapsto> (Fin 10, 4)], [''litecoin''])"
  by (simp add: getUsdRate_def toLowerCase_LTC toLowerCase_def lower_char_def COINGECKO_IDS_get_ltc
        quoting_coins_def quoting_def price_ttl_default)

lemma sums_reingested:
  "sum_field B ''payoutUSD'' store_reingested = Fin 0"
  "sum_field B ''amountUSD'' store_reingested = Fin 0"
  "sum_field plain_builtins ''payout'' store_reingested = Fin 3"
  "sum_field plain_builtins ''amount'' store_reingested = Fin 0"
  "js_or (get_own (last store_reingested) ''currency'') (JStr ''ltc'') = JStr ''btc''"
  "store_reingested \<noteq> []"
  by (simp_all add: sum_field_def store_reingested_def stored_def get_own_def js_or_def plain_arithmetic)

lemma summary_reingested_requests:
  "snd (snd (summary_totals B (env_PRICE_TTL_MS None) 4 quoting_coins Map.empty store_reingested ''u1''))
     = [''bitcoin'']"
  using summary_totals_fallback [of "''u1''" store_reingested store_reingested B
          "env_PRICE_TTL_MS None" 4 quoting_coins Map.empty "Fin 1000" "[''btc'' \<mapsto> (Fin 1000, 4)]" "[''bitcoin'']"]
  by (simp add: matching_reingested sums_reingested rate_btc)

lemma summary_reingested_totals:
  "summary_totals plain_builtins (env_PRICE_TTL_MS None) 4 quoting_coins Map.empty store_reingested ''u1''
     = (\<lparr>totalBets = JNum (Fin 2), maxMult = JNum (Fin 0), totalPayout = Fin 3000, totalAmountUSD = Fin 0\<rparr>,
        [''btc'' \<mapsto> (Fin 1000, 4)], [''bitcoin''])"
  using summary_totals_fallback [of "''u1''" store_reingested store_reingested plain_builtins
          "env_PRICE_TTL_MS None" 4 quoting_coins Map.empty "Fin 1000" "[''btc'' \<mapsto> (Fin 1000, 4)]" "[''bitcoin'']"]
  by (simp add: matching_reingested sums_reingested rate_btc round2_plain plain_arithmetic)
     (simp add: store_reingested_def stored_def max_field_def get_own_def js_or_def js_zero_def)

text \<open>
  Claim C6, at the input where the code departs from it. A cashout in \<open>ltc\<close> is ingested
  for an account, then one in \<open>btc\<close>, then the first one again. The first record is now
  the one captured most recently, but an update leaves a record where it stands, and the
  pipeline takes \<open>$last\<close> of the currency without a \<open>$sort\<close>: the summary asks for the
  rate of \<open>btc\<close>. With \<open>ltc\<close> at 10 and \<open>btc\<close> at 1000, the crypto payouts 1 and 2 give a
  total payout of 3000, where the rate of the most recently captured record's currency
  gives 30. No USD is stored, so the fallback is taken whatever the arithmetic of
  doubles does, and the request is the one for \<open>bitcoin\<close>.
\<close>

theorem summary_rate_not_of_latest_capture:
  "cashouts (snd (ingest B True 3 (Nested body_ltc)
      (snd (ingest B True 2 (Nested body_btc)
         (snd (ingest B True 1 (Nested body_ltc) empty_db)))))) = store_reingested
   \<and> map_option (\<lambda>d. get_own d ''currency'') (most_recently_captured (matching ''u1'' store_reingested))
       = Some (JStr ''ltc'')
   \<and> fst (getUsdRate B (env_PRICE_TTL_MS None) 4 quoting_coins Map.empty (JStr ''ltc'')) = JNum (Fin 10)
   \<and> snd (snd (summary_totals B (env_PRICE_TTL_MS None) 4 quoting_coins Map.empty store_reingested ''u1''))
       = [''bitcoin'']
   \<and> summary_totals plain_builtins (env_PRICE_TTL_MS None) 4 quoting_coins Map.empty store_reingested ''u1''
       = (\<lparr>totalBets = JNum (Fin 2), maxMult = JNum (Fin 0), totalPayout = Fin 3000, totalAmountUSD = Fin 0\<rparr>,
          [''btc'' \<mapsto> (Fin 1000, 4)], [''bitcoin''])"
  by (simp add: reingested_reachable matching_reingested latest_reingested rate_ltc
        summary_reingested_requests summary_reingested_totals)

section \<open>Page and size\<close>

text \<open>When the parameter parses to a number, the page is at least 1 and the size lies
  in the bounds; a missing parameter takes the default.\<close>

lemma page_zero_is_one: "cashouts_page B (JStr ''0'') = Fin 1"
  by (simp add: cashouts_page_def js_coalesce_def parseInt10_def is_ws_def is_digit_def digits_val_def digit_val_def)

lemma size_500_is_200: "cashouts_size B (JStr ''500'') = Fin 200"
  by (simp add: cashouts_size_def js_coalesce_def parseInt10_def is_ws_def is_digit_def digits_val_def digit_val_def)

lemma size_default: "cashouts_size B JUndefined = Fin 50 \<and> cashouts_page B JUndefined = Fin 1 \<and> leaderboard_size B JUndefined = Fin 10"
  by (simp add: cashouts_size_def cashouts_page_def leaderboard_size_def js_coalesce_def parseInt10_def is_ws_def is_digit_def digits_val_def digit_val_def)

lemma page_bounds: "parseInt10 (ToString B (js_coalesce q (JStr ''1''))) = Fin n \<Longrightarrow> \<exists>p. cashouts_page B q = Fin p \<and> 1 \<le> p"
  by (simp add: cashouts_page_def)

lemma size_bounds: "parseInt10 (ToString B (js_coalesce q (JStr ''50''))) = Fin n \<Longrightarrow> \<exists>p. cashouts_size B q = Fin p \<and> 1 \<le> p \<and> p \<le> 200"
  by (simp add: cashouts_size_def)

lemma leaderboard_size_bounds: "parseInt10 (ToString B (js_coalesce q (JStr ''10''))) = Fin n \<Longrightarrow> \<exists>p. leaderboard_size B q = Fin p \<and> 1 \<le> p \<and> p \<le> 50"
  by (simp add: leaderboard_size_def)

text \<open>
  Claim C8, at the input where the code departs from it. For a parameter that does not
  start with an integer, such as \<open>page=abc\<close> or \<open>size=abc\<close>, \<open>parseInt\<close> is \<open>NaN\<close>,
  \<open>Math.max(1, NaN)\<close> and \<open>Math.min(200, NaN)\<close> are \<open>NaN\<close>, and the effective page and
  size are \<open>NaN\<close>: neither at least 1 nor within the bounds. The same holds for the
  empty parameter \<open>page=\<close>, which \<open>??\<close> does not replace by the default.
\<close>

theorem pagination_nan_not_clamped:
  "cashouts_page B (JStr ''abc'') = NaN \<and> cashouts_size B (JStr ''abc'') = NaN
   \<and> leaderboard_size B (JStr ''abc'') = NaN \<and> cashouts_page B (JStr []) = NaN"
  by (simp add: cashouts_page_def cashouts_size_def leaderboard_size_def js_coalesce_def
        parseInt10_def is_ws_def is_digit_def)

end
